theory Spec2Isabelle
  imports Complex_Main "HOL-Library.Multiset"
begin

section \<open>Values of the program\<close>

text \<open>
  The pipeline of \<^verbatim>\<open>main.py\<close> passes Python values between its collaborators
  (\<^verbatim>\<open>utils\<close>, \<^verbatim>\<open>constants\<close>, \<^verbatim>\<open>multiprocessing\<close>, \<^verbatim>\<open>absl\<close>). Only the values whose
  shape decides a branch of \<^verbatim>\<open>main.py\<close> are modelled in detail.

  The data type of a dataset is a Python string. \<^verbatim>\<open>main.py\<close> compares it in two ways:
  by content (\<^verbatim>\<open>==\<close>, in \<^verbatim>\<open>data_handling\<close> and \<^verbatim>\<open>compute\<close>) and by object identity
  (\<^verbatim>\<open>is not\<close>, in the two postprocessors). A string object is therefore a pair of an
  object identity and its characters: two references are the same object when the
  pairs are equal, and equal as strings when the characters are.
\<close>

record str_obj =
  oid :: nat
  chars :: string

text \<open>\<^verbatim>\<open>x is c\<close> for an \<^verbatim>\<open>Optional[str]\<close> value \<open>x\<close> and a string object \<open>c\<close>.\<close>

definition py_is :: "str_obj option \<Rightarrow> str_obj \<Rightarrow> bool" where
  "py_is x c = (x = Some c)"

text \<open>\<^verbatim>\<open>x == c\<close>: \<^verbatim>\<open>None\<close> equals no string.\<close>

definition py_eq :: "str_obj option \<Rightarrow> str_obj \<Rightarrow> bool" where
  "py_eq x c = (case x of None \<Rightarrow> False | Some s \<Rightarrow> chars s = chars c)"

text \<open>Truthiness, as \<^verbatim>\<open>if x:\<close> and \<^verbatim>\<open>x or y\<close> test it: \<^verbatim>\<open>None\<close>, the empty string,
  \<^verbatim>\<open>False\<close> and \<^verbatim>\<open>0\<close> are false.\<close>

definition truthy_type :: "str_obj option \<Rightarrow> bool" where
  "truthy_type x = (case x of None \<Rightarrow> False | Some s \<Rightarrow> chars s \<noteq> [])"

definition truthy_bool :: "bool option \<Rightarrow> bool" where
  "truthy_bool x = (case x of None \<Rightarrow> False | Some b \<Rightarrow> b)"

text \<open>A parameter with a default value is either omitted by the caller or given.\<close>

datatype 'a arg = Omitted | Given 'a

fun bind_default :: "'a \<Rightarrow> 'a arg \<Rightarrow> 'a" where
  "bind_default d Omitted = d"
| "bind_default d (Given x) = x"

text \<open>A \<^verbatim>\<open>pandas.DataFrame\<close>: row labels, column labels and the cells, row by row.
  Count matrices hold numbers; the activity matrix holds p-values, which may be NaN.\<close>

record 'v frame =
  row_index :: "string list"
  col_index :: "string list"
  cells :: "'v list list"

datatype pval = Pval real | NaN

text \<open>\<^verbatim>\<open>df.shape[0]\<close>\<close>

definition shape0 :: "'v frame \<Rightarrow> int" where
  "shape0 f = int (length (row_index f))"

text \<open>\<^verbatim>\<open>os.path.join(a, b)\<close> on a POSIX system (\<^verbatim>\<open>posixpath.join\<close> with two components).\<close>

definition path_join :: "string \<Rightarrow> string \<Rightarrow> string" where
  "path_join a b =
     (if take 1 b = ''/'' then b
      else if a = [] \<or> last a = CHR ''/'' then a @ b
      else a @ ''/'' @ b)"

text \<open>\<^verbatim>\<open>sep.join(xs)\<close>\<close>

fun str_join :: "string \<Rightarrow> string list \<Rightarrow> string" where
  "str_join sep [] = []"
| "str_join sep [x] = x"
| "str_join sep (x # y # ys) = x @ sep @ str_join sep (y # ys)"

section \<open>Exceptions, constants and collaborators\<close>

text \<open>
  \<^verbatim>\<open>UsageError fmt arg\<close> is \<^verbatim>\<open>utils.UsageError(fmt, arg)\<close> as \<^verbatim>\<open>main.py\<close> raises it (the
  format string and the path are two arguments of the exception).
  \<^verbatim>\<open>IllegalFlagValueError\<close> is what flag validation raises: one entry per failing
  validator, the flag's name and the validator's message. \<^verbatim>\<open>Raised\<close> is any other
  exception, raised by a collaborator.
\<close>

datatype exn =
    UsageError string string
  | IllegalFlagValueError "(string \<times> string list) list"
  | Raised string

text \<open>The module \<^verbatim>\<open>constants\<close> is a parameter: the names \<^verbatim>\<open>main.py\<close> reads from it.\<close>

record constants =
  DATA_TYPE_SPATIAL :: str_obj
  DATA_TYPE_SINGLE_CELL :: str_obj
  SPECIES_HOMO_SAPIENS :: string
  SUPPORTED_SPECIES :: "string list"
  DRAW_TOP_10 :: string
  SUPPORTED_DRAW :: "string list"
  ACTIVITY_THRESH :: real

text \<open>
  The functions of \<^verbatim>\<open>utils\<close> that \<^verbatim>\<open>main.py\<close> calls, and \<^verbatim>\<open>mp.cpu_count\<close>, are
  parameters as well. Each one returns a value or raises; within one run each is a
  function of its arguments. The target table, the ranked activity list and the
  enriched counts stay abstract (\<open>'t\<close>, \<open>'a\<close>, \<open>'u\<close>).
\<close>

record ('t, 'a, 'u) utils =
  check_data_type :: "string \<Rightarrow> exn + str_obj option"
  visium_loader :: "string \<Rightarrow> exn + real frame"
  scRNAseq_preprocess_loader :: "string \<Rightarrow> string \<Rightarrow> exn + real frame"
  scRNAseq_loader :: "string \<Rightarrow> exn + real frame"
  normalize_counts :: "real frame \<Rightarrow> exn + real frame"
  mp_cpu_count :: "exn + int"
  mir_data_loading :: "string list option \<Rightarrow> string \<Rightarrow> bool \<Rightarrow> exn + ('t \<times> string list)"
  compute_mir_activity ::
    "real frame \<Rightarrow> string list \<Rightarrow> 't \<Rightarrow> string \<Rightarrow> int \<Rightarrow> bool \<Rightarrow> exn + pval frame"
  get_spatial_coors :: "string \<Rightarrow> real frame \<Rightarrow> exn + real frame"
  sort_activity_spatial :: "pval frame \<Rightarrow> real \<Rightarrow> int \<Rightarrow> string \<Rightarrow> string \<Rightarrow> exn + 'a"
  get_figure_list :: "string list \<Rightarrow> string \<Rightarrow> 'a \<Rightarrow> exn + string list"
  produce_spatial_maps ::
    "string list \<Rightarrow> pval frame \<Rightarrow> real frame \<Rightarrow> string \<Rightarrow> string \<Rightarrow> 'a \<Rightarrow> exn + unit"
  generate_umap :: "real frame \<Rightarrow> pval frame \<Rightarrow> string list option \<Rightarrow> exn + 'u"
  sort_activity_sc :: "pval frame \<Rightarrow> string list option \<Rightarrow> exn + 'a"
  plot_sc ::
    "string list \<Rightarrow> 'u \<Rightarrow> string \<Rightarrow> string \<Rightarrow> 'a \<Rightarrow> pval frame \<Rightarrow> string list option
       \<Rightarrow> exn + unit"

section \<open>Runs as traces\<close>

text \<open>
  A run of a function of \<^verbatim>\<open>main.py\<close> is the list of calls it made, in order, and its
  outcome: the exception that ended it or the value it returned. An event records a
  call with its arguments: the calls to collaborators, and the entry into each of the
  four functions of \<^verbatim>\<open>main.py\<close> that \<^verbatim>\<open>compute\<close> sequences. Logging and the timing of
  the scoring pass decide no branch and no argument, and are left out.
\<close>

datatype ('t, 'a, 'u) event =
    Check_data_type string
  | Visium_loader string
  | ScRNAseq_preprocess_loader string string
  | ScRNAseq_loader string
  | Normalize_counts "real frame"
  | Cpu_count
  | Mir_data_loading "string list option" string bool
  | Compute_mir_activity "real frame" "string list" 't string int bool
  | Get_spatial_coors string "real frame"
  | Sort_activity_spatial "pval frame" real int string string
  | Get_figure_list "string list" string 'a
  | Produce_spatial_maps "string list" "pval frame" "real frame" string string 'a
  | Generate_umap "real frame" "pval frame" "string list option"
  | Sort_activity_sc "pval frame" "string list option"
  | Plot_sc "string list" 'u string string 'a "pval frame" "string list option"
  | Call_data_handling string string "str_obj option" "bool option"
  | Call_computing_mir_activity "real frame" string "string list option" "int option"
      string bool
  | Call_mir_post_processing_spatial string "real frame" "pval frame" "string list"
      string string "str_obj option" string real
  | Call_mir_post_processing_sc string "real frame" "pval frame" "string list"
      string string "str_obj option" string "string list option"

type_synonym ('t, 'a, 'u, 'r) run = "('t, 'a, 'u) event list \<times> (exn + 'r)"

definition call :: "('t, 'a, 'u) event \<Rightarrow> exn + 'r \<Rightarrow> ('t, 'a, 'u, 'r) run" where
  "call ev outcome = ([ev], outcome)"

definition ret :: "'r \<Rightarrow> ('t, 'a, 'u, 'r) run" where
  "ret x = ([], Inr x)"

definition raise :: "exn \<Rightarrow> ('t, 'a, 'u, 'r) run" where
  "raise e = ([], Inl e)"

text \<open>Sequencing: an exception ends the run; otherwise the traces follow each other.\<close>

definition bind_run ::
  "('t, 'a, 'u, 'r) run \<Rightarrow> ('r \<Rightarrow> ('t, 'a, 'u, 's) run) \<Rightarrow> ('t, 'a, 'u, 's) run" where
  "bind_run m f =
     (case snd m of
        Inl e \<Rightarrow> (fst m, Inl e)
      | Inr x \<Rightarrow> (fst m @ fst (f x), snd (f x)))"

section \<open>The functions of main.py\<close>

text \<open>Lines 90-91, 169-170 and 224-225: \<^verbatim>\<open>if not data_type: data_type = utils.check_data_type(data_path)\<close>.\<close>

definition detect_if_missing ::
  "('t, 'a, 'u) utils \<Rightarrow> string \<Rightarrow> str_obj option \<Rightarrow> ('t, 'a, 'u, str_obj option) run" where
  "detect_if_missing U data_path data_type =
     (if \<not> truthy_type data_type
      then call (Check_data_type data_path) (check_data_type U data_path)
      else ret data_type)"

definition data_handling ::
  "('t, 'a, 'u) utils \<Rightarrow> constants \<Rightarrow> string \<Rightarrow> string \<Rightarrow> str_obj option \<Rightarrow> bool option arg
     \<Rightarrow> ('t, 'a, 'u, real frame \<times> real frame) run" where
  "data_handling U C data_path dataset_name data_type preprocess_arg =
     (let preprocess = bind_default (Some True) preprocess_arg in
      bind_run (call (Call_data_handling data_path dataset_name data_type preprocess) (Inr ()))
        (\<lambda>_.
      bind_run (detect_if_missing U data_path data_type) (\<lambda>data_type.
      bind_run
        (if py_eq data_type (DATA_TYPE_SPATIAL C)
         then call (Visium_loader data_path) (visium_loader U data_path)
         else if truthy_bool preprocess
         then call (ScRNAseq_preprocess_loader dataset_name data_path)
                (scRNAseq_preprocess_loader U dataset_name data_path)
         else call (ScRNAseq_loader data_path) (scRNAseq_loader U data_path)) (\<lambda>counts.
      bind_run (call (Normalize_counts counts) (normalize_counts U counts)) (\<lambda>counts_norm.
      ret (counts_norm, counts))))))"

text \<open>Line 120: \<^verbatim>\<open>cpus = cpus or mp.cpu_count()\<close>; the right operand is evaluated only
  when the left one is false.\<close>

definition cpus_or_all ::
  "('t, 'a, 'u) utils \<Rightarrow> int option \<Rightarrow> ('t, 'a, 'u, int) run" where
  "cpus_or_all U cpus =
     (case cpus of
        None \<Rightarrow> call Cpu_count (mp_cpu_count U)
      | Some k \<Rightarrow> if k \<noteq> 0 then ret k else call Cpu_count (mp_cpu_count U))"

definition computing_mir_activity ::
  "('t, 'a, 'u) utils \<Rightarrow> constants \<Rightarrow> real frame \<Rightarrow> string \<Rightarrow> string list option \<Rightarrow> int option
     \<Rightarrow> string arg \<Rightarrow> bool arg \<Rightarrow> ('t, 'a, 'u, string list \<times> pval frame) run" where
  "computing_mir_activity U C counts_norm results_path miR_list cpus species_arg debug_arg =
     (let species = bind_default (SPECIES_HOMO_SAPIENS C) species_arg;
          debug = bind_default False debug_arg in
      bind_run
        (call (Call_computing_mir_activity counts_norm results_path miR_list cpus species debug)
           (Inr ())) (\<lambda>_.
      bind_run (cpus_or_all U cpus) (\<lambda>cpus.
      bind_run
        (call (Mir_data_loading miR_list species debug) (mir_data_loading U miR_list species debug))
        (\<lambda>(mti_data, miR_list).
      bind_run
        (call (Compute_mir_activity counts_norm miR_list mti_data results_path cpus debug)
           (compute_mir_activity U counts_norm miR_list mti_data results_path cpus debug))
        (\<lambda>miR_activity_pvals.
      ret (miR_list, miR_activity_pvals))))))"

definition mir_post_processing_spatial ::
  "('t, 'a, 'u) utils \<Rightarrow> constants \<Rightarrow> string \<Rightarrow> real frame \<Rightarrow> pval frame \<Rightarrow> string list
     \<Rightarrow> string \<Rightarrow> string \<Rightarrow> str_obj option \<Rightarrow> string arg \<Rightarrow> real arg
     \<Rightarrow> ('t, 'a, 'u, unit) run" where
  "mir_post_processing_spatial U C data_path counts_norm miR_activity_pvals miR_list
       results_path dataset_name data_type miR_figures_arg thresh_arg =
     (let miR_figures = bind_default (DRAW_TOP_10 C) miR_figures_arg;
          thresh = bind_default (ACTIVITY_THRESH C) thresh_arg in
      bind_run
        (call (Call_mir_post_processing_spatial data_path counts_norm miR_activity_pvals
                 miR_list results_path dataset_name data_type miR_figures thresh) (Inr ()))
        (\<lambda>_.
      bind_run (detect_if_missing U data_path data_type) (\<lambda>data_type.
      if \<not> py_is data_type (DATA_TYPE_SPATIAL C)
      then raise (UsageError ''No spatial data was found for post-processing in %s'' data_path)
      else
      bind_run
        (call (Get_spatial_coors data_path counts_norm)
           (get_spatial_coors U data_path counts_norm)) (\<lambda>spatial_coors.
      let spots = shape0 spatial_coors in
      bind_run
        (call (Sort_activity_spatial miR_activity_pvals thresh spots results_path dataset_name)
           (sort_activity_spatial U miR_activity_pvals thresh spots results_path dataset_name))
        (\<lambda>mir_activity_list.
      bind_run
        (call (Get_figure_list miR_list miR_figures mir_activity_list)
           (get_figure_list U miR_list miR_figures mir_activity_list)) (\<lambda>miR_list_figures.
      call (Produce_spatial_maps miR_list_figures miR_activity_pvals spatial_coors
              results_path dataset_name mir_activity_list)
        (produce_spatial_maps U miR_list_figures miR_activity_pvals spatial_coors
           results_path dataset_name mir_activity_list)))))))"

definition mir_post_processing_sc ::
  "('t, 'a, 'u) utils \<Rightarrow> constants \<Rightarrow> string \<Rightarrow> real frame \<Rightarrow> pval frame \<Rightarrow> string list
     \<Rightarrow> string \<Rightarrow> string \<Rightarrow> str_obj option \<Rightarrow> string arg \<Rightarrow> string list option arg
     \<Rightarrow> ('t, 'a, 'u, unit) run" where
  "mir_post_processing_sc U C data_path counts miR_activity_pvals miR_list
       results_path dataset_name data_type miR_figures_arg populations_arg =
     (let miR_figures = bind_default (DRAW_TOP_10 C) miR_figures_arg;
          populations = bind_default None populations_arg in
      bind_run
        (call (Call_mir_post_processing_sc data_path counts miR_activity_pvals
                 miR_list results_path dataset_name data_type miR_figures populations) (Inr ()))
        (\<lambda>_.
      bind_run (detect_if_missing U data_path data_type) (\<lambda>data_type.
      if \<not> py_is data_type (DATA_TYPE_SINGLE_CELL C)
      then raise (UsageError ''No scRNAseq data was found for post-processing in %s'' data_path)
      else
      bind_run
        (call (Generate_umap counts miR_activity_pvals populations)
           (generate_umap U counts miR_activity_pvals populations)) (\<lambda>enriched_counts.
      bind_run
        (call (Sort_activity_sc miR_activity_pvals populations)
           (sort_activity_sc U miR_activity_pvals populations)) (\<lambda>mir_activity_list.
      bind_run
        (call (Get_figure_list miR_list miR_figures mir_activity_list)
           (get_figure_list U miR_list miR_figures mir_activity_list)) (\<lambda>miR_list_figures.
      call (Plot_sc miR_list_figures enriched_counts results_path dataset_name
              mir_activity_list miR_activity_pvals populations)
        (plot_sc U miR_list_figures enriched_counts results_path dataset_name
           mir_activity_list miR_activity_pvals populations)))))))"

text \<open>Lines 290-293: the value \<^verbatim>\<open>compute\<close> binds to \<^verbatim>\<open>results_path\<close>, before its first call.\<close>

definition resolved_path :: "string \<Rightarrow> string \<Rightarrow> string option \<Rightarrow> string" where
  "resolved_path data_path dataset_name results_path =
     (case results_path of
        None \<Rightarrow> path_join data_path ''results''
      | Some rp \<Rightarrow> if rp \<noteq> [] then path_join rp dataset_name else path_join data_path ''results'')"

definition compute ::
  "('t, 'a, 'u) utils \<Rightarrow> constants \<Rightarrow> string \<Rightarrow> string \<Rightarrow> string list option \<Rightarrow> int option
     \<Rightarrow> string option \<Rightarrow> string arg \<Rightarrow> string arg \<Rightarrow> bool option arg \<Rightarrow> real arg
     \<Rightarrow> string list option arg \<Rightarrow> bool arg \<Rightarrow> ('t, 'a, 'u, unit) run" where
  "compute U C data_path dataset_name miR_list cpus results_path species_arg miR_figures_arg
       preprocess_arg thresh_arg populations_arg debug_arg =
     (let species = bind_default (SPECIES_HOMO_SAPIENS C) species_arg;
          miR_figures = bind_default (DRAW_TOP_10 C) miR_figures_arg;
          preprocess = bind_default (Some True) preprocess_arg;
          thresh = bind_default (ACTIVITY_THRESH C) thresh_arg;
          populations = bind_default None populations_arg;
          debug = bind_default False debug_arg;
          results_path = resolved_path data_path dataset_name results_path in
      bind_run (call (Check_data_type data_path) (check_data_type U data_path)) (\<lambda>data_type.
      bind_run
        (data_handling U C data_path dataset_name data_type (Given preprocess))
        (\<lambda>(counts_norm, counts).
      bind_run
        (computing_mir_activity U C counts_norm results_path miR_list cpus
           (Given species) (Given debug)) (\<lambda>(miR_list, miR_activity_pvals).
      if py_eq data_type (DATA_TYPE_SPATIAL C)
      then mir_post_processing_spatial U C data_path counts_norm miR_activity_pvals miR_list
             results_path dataset_name data_type (Given miR_figures) (Given thresh)
      else mir_post_processing_sc U C data_path counts miR_activity_pvals miR_list
             results_path dataset_name data_type (Given miR_figures) (Given populations)))))"

section \<open>The command line\<close>

text \<open>
  The flags as \<^verbatim>\<open>absl\<close> holds them after parsing the command line. Lines 23-61 define
  them with their defaults; \<^verbatim>\<open>data_path\<close> and \<^verbatim>\<open>dataset_name\<close> have none and are marked
  as required.
\<close>

record flags =
  flag_cpus :: "int option"
  flag_data_path :: "string option"
  flag_dataset_name :: "string option"
  flag_debug :: bool
  flag_miR_figures :: string
  flag_miR_list :: "string list option"
  flag_populations :: "string list option"
  flag_preprocess :: bool
  flag_results_path :: "string option"
  flag_species :: string
  flag_thresh :: real

definition flag_defaults :: "constants \<Rightarrow> flags" where
  "flag_defaults C =
     \<lparr>flag_cpus = None, flag_data_path = None, flag_dataset_name = None, flag_debug = False,
      flag_miR_figures = DRAW_TOP_10 C, flag_miR_list = None, flag_populations = None,
      flag_preprocess = False, flag_results_path = None,
      flag_species = SPECIES_HOMO_SAPIENS C, flag_thresh = ACTIVITY_THRESH C\<rparr>"

text \<open>
  Lines 63-73 register four validators, in this order. Each is the flag's name, whether
  the flag's value passes, and the message: for the two validators of \<^verbatim>\<open>main.py\<close> the
  message is the pair \<^verbatim>\<open>('Either %s are supported.', ' or '.join(supported))\<close>, as
  written there; for a required flag it is the message of \<^verbatim>\<open>absl\<close>.
\<close>

definition validators :: "constants \<Rightarrow> flags \<Rightarrow> (string \<times> bool \<times> string list) list" where
  "validators C F =
     [(''species'', flag_species F \<in> set (SUPPORTED_SPECIES C),
         [''Either %s are supported.'', str_join '' or '' (SUPPORTED_SPECIES C)]),
      (''miR_figures'', flag_miR_figures F \<in> set (SUPPORTED_DRAW C),
         [''Either %s are supported.'', str_join '' or '' (SUPPORTED_DRAW C)]),
      (''dataset_name'', flag_dataset_name F \<noteq> None,
         [''Flag --dataset_name must have a value other than None.'']),
      (''data_path'', flag_data_path F \<noteq> None,
         [''Flag --data_path must have a value other than None.''])]"

definition failed_validators :: "constants \<Rightarrow> flags \<Rightarrow> (string \<times> string list) list" where
  "failed_validators C F =
     map (\<lambda>(name, ok, message). (name, message))
       (filter (\<lambda>(name, ok, message). \<not> ok) (validators C F))"

text \<open>Lines 336-348. \<^verbatim>\<open>main\<close> runs only after the required flags were validated; the
  last case stands for a call with a required flag unset, which \<open>app_run\<close> never makes.\<close>

definition main :: "('t, 'a, 'u) utils \<Rightarrow> constants \<Rightarrow> flags \<Rightarrow> ('t, 'a, 'u, unit) run" where
  "main U C F =
     (case (flag_data_path F, flag_dataset_name F) of
        (Some data_path, Some dataset_name) \<Rightarrow>
          compute U C data_path dataset_name (flag_miR_list F) (flag_cpus F)
            (flag_results_path F) (Given (flag_species F)) (Given (flag_miR_figures F))
            (Given (Some (flag_preprocess F))) (Given (flag_thresh F))
            (Given (flag_populations F)) (Given (flag_debug F))
      | _ \<Rightarrow> raise (Raised ''required flag is None''))"

text \<open>
  Line 351, \<^verbatim>\<open>app.run(main)\<close>: \<^verbatim>\<open>absl\<close> verifies every registered validator on the parsed
  flags, in the order of registration, raises \<^verbatim>\<open>IllegalFlagValueError\<close> with the messages
  of those that fail (it then prints the usage and exits), and calls \<^verbatim>\<open>main\<close> only when
  none failed.
\<close>

definition app_run :: "('t, 'a, 'u) utils \<Rightarrow> constants \<Rightarrow> flags \<Rightarrow> ('t, 'a, 'u, unit) run" where
  "app_run U C F =
     (if failed_validators C F \<noteq> [] then raise (IllegalFlagValueError (failed_validators C F))
      else main U C F)"

section \<open>The scoring engine\<close>

text \<open>
  \<^verbatim>\<open>utils.compute_mir_activity\<close>, the Activity Scoring Engine that \<^verbatim>\<open>computing_mir_activity\<close>
  calls, is not among the sources. The definitions of this section follow sections 3,
  4.2, 5 and 9 of the specification. The statistical test itself is left open there
  (a pluggable two-sample primitive) and is a parameter here.
\<close>

text \<open>Modelled from the spec: the target catalog of the absent \<^verbatim>\<open>utils\<close>, a mapping from a
  microRNA identifier to its target gene identifiers.\<close>

type_synonym catalog = "string \<Rightarrow> string list"

text \<open>Modelled from the spec: the two-sample test primitive of the absent engine; it gets
  the expression values of the target genes and of the background genes of one cell.\<close>

type_synonym two_sample_test = "real list \<Rightarrow> real list \<Rightarrow> pval"

text \<open>Modelled from the spec: the sentinel p-value of the absent engine, 1.0, "no
  evidence".\<close>

definition sentinel_pval :: pval where
  "sentinel_pval = Pval 1"

text \<open>Modelled from the spec: the column of cell \<open>j\<close> of the matrix the absent engine
  reads, one value per gene (a data frame is rectangular).\<close>

definition column :: "'v frame \<Rightarrow> nat \<Rightarrow> 'v list" where
  "column M j = map (\<lambda>row. row ! j) (cells M)"

text \<open>Modelled from the spec: the target genes of a microRNA that are present in the gene
  index of the matrix (absent engine, section 4.2).\<close>

definition overlap :: "real frame \<Rightarrow> catalog \<Rightarrow> string \<Rightarrow> string list" where
  "overlap M cat m = filter (\<lambda>g. g \<in> set (cat m)) (row_index M)"

text \<open>Modelled from the spec: the score of one (microRNA, cell) pair in the absent engine.
  The genes of the cell are split into target genes and all remaining genes, and the
  test compares the two samples of that cell's column.\<close>

definition score_cell :: "two_sample_test \<Rightarrow> real frame \<Rightarrow> catalog \<Rightarrow> string \<Rightarrow> nat \<Rightarrow> pval" where
  "score_cell test M cat m j =
     (let labelled = zip (row_index M) (column M j) in
      test (map snd (filter (\<lambda>(g, v). g \<in> set (cat m)) labelled))
           (map snd (filter (\<lambda>(g, v). g \<notin> set (cat m)) labelled)))"

text \<open>Modelled from the spec: the result row of one microRNA in the absent engine. A
  microRNA whose target set has zero overlap with the matrix's genes cannot be scored
  and is recorded with the sentinel p-value in every cell.\<close>

definition score_row :: "two_sample_test \<Rightarrow> real frame \<Rightarrow> catalog \<Rightarrow> string \<Rightarrow> pval list" where
  "score_row test M cat m =
     (if overlap M cat m = [] then replicate (length (col_index M)) sentinel_pval
      else map (score_cell test M cat m) [0..<length (col_index M)])"

text \<open>Modelled from the spec: the static partition of the absent engine's work, \<open>k\<close>
  contiguous slices balanced by size, the last ones shorter or empty.\<close>

definition slice_size :: "nat \<Rightarrow> nat \<Rightarrow> nat" where
  "slice_size n k = (n + k - 1) div k"

text \<open>Modelled from the spec: the slice of worker \<open>w\<close> in the absent engine's partition.\<close>

definition work_slice :: "nat \<Rightarrow> 'x list \<Rightarrow> nat \<Rightarrow> 'x list" where
  "work_slice sz items w = take sz (drop (w * sz) items)"

text \<open>Modelled from the spec: a worker of the absent engine. Worker \<open>w\<close> scores the
  microRNAs of its slice against the full matrix and keeps each row with its position
  in the microRNA list.\<close>

definition worker ::
  "two_sample_test \<Rightarrow> real frame \<Rightarrow> catalog \<Rightarrow> nat \<Rightarrow> (nat \<times> string) list \<Rightarrow> nat
     \<Rightarrow> (nat \<times> pval list) list" where
  "worker test M cat sz items w =
     map (\<lambda>(i, m). (i, score_row test M cat m)) (work_slice sz items w)"

text \<open>Modelled from the spec: the reassembly of the absent engine, by indexed position and
  not by arrival order. Row \<open>i\<close> is the row that some worker delivered for position \<open>i\<close>;
  a missing row fails the run as a whole.\<close>

definition reassemble :: "nat \<Rightarrow> (nat \<times> pval list) list \<Rightarrow> pval list list option" where
  "reassemble n outs = those (map (map_of outs) [0..<n])"

text \<open>
  Modelled from the spec: \<^verbatim>\<open>score(counts_norm, microRNA_list, target_catalog, worker_count)\<close>
  of the absent engine. The workers \<open>0, \<dots>, k - 1\<close> deliver their outputs in the order
  \<open>arrival\<close>, which the scheduler decides; the rows of the result are the microRNA list,
  its columns those of the matrix. The worker count must be positive.
\<close>

definition score ::
  "two_sample_test \<Rightarrow> real frame \<Rightarrow> string list \<Rightarrow> catalog \<Rightarrow> nat \<Rightarrow> nat list
     \<Rightarrow> pval frame option" where
  "score test M L cat k arrival =
     (if k = 0 then None
      else
        let items = enumerate 0 L;
            sz = slice_size (length L) k;
            outs = concat (map (worker test M cat sz items) arrival)
        in map_option (\<lambda>rows. \<lparr>row_index = L, col_index = col_index M, cells = rows\<rparr>)
             (reassemble (length L) outs))"

section \<open>Reading traces\<close>

text \<open>The results path an event carries, for the calls that receive one.\<close>

fun results_path_of :: "('t, 'a, 'u) event \<Rightarrow> string option" where
  "results_path_of (Compute_mir_activity counts_norm miR_list mti results_path cpus debug) =
     Some results_path"
| "results_path_of (Sort_activity_spatial pvals thresh spots results_path dataset_name) =
     Some results_path"
| "results_path_of (Produce_spatial_maps figs pvals coors results_path dataset_name ranked) =
     Some results_path"
| "results_path_of (Plot_sc figs enriched results_path dataset_name ranked pvals pops) =
     Some results_path"
| "results_path_of (Call_computing_mir_activity counts_norm results_path miR_list cpus
       species debug) = Some results_path"
| "results_path_of (Call_mir_post_processing_spatial data_path counts pvals miR_list
       results_path dataset_name data_type figs thresh) = Some results_path"
| "results_path_of (Call_mir_post_processing_sc data_path counts pvals miR_list
       results_path dataset_name data_type figs pops) = Some results_path"
| "results_path_of _ = None"



fun is_loader_call :: "('t, 'a, 'u) event \<Rightarrow> bool" where
  "is_loader_call (Visium_loader data_path) = True"
| "is_loader_call (ScRNAseq_preprocess_loader dataset_name data_path) = True"
| "is_loader_call (ScRNAseq_loader data_path) = True"
| "is_loader_call _ = False"

fun is_engine_call :: "('t, 'a, 'u) event \<Rightarrow> bool" where
  "is_engine_call (Compute_mir_activity counts_norm miR_list mti results_path cpus debug) = True"
| "is_engine_call _ = False"

fun is_postprocessor_call :: "('t, 'a, 'u) event \<Rightarrow> bool" where
  "is_postprocessor_call (Call_mir_post_processing_spatial data_path counts pvals miR_list
       results_path dataset_name data_type figs thresh) = True"
| "is_postprocessor_call (Call_mir_post_processing_sc data_path counts pvals miR_list
       results_path dataset_name data_type figs pops) = True"
| "is_postprocessor_call _ = False"

section \<open>An example instance\<close>

text \<open>
  Concrete constants and collaborators on which the model is evaluated. The strings
  \<^verbatim>\<open>'spatial'\<close>, \<^verbatim>\<open>'scRNAseq'\<close>, \<^verbatim>\<open>'homo_sapiens'\<close> and \<^verbatim>\<open>'mus_musculus'\<close> are the ones the
  docstrings of \<^verbatim>\<open>main.py\<close> name; the other values are chosen for the example. The
  matrix is the one of the end-to-end scenario of the specification: five genes, four
  cells, microRNA \<^verbatim>\<open>m1\<close> with two target genes in the matrix and \<^verbatim>\<open>m2\<close> with none.
\<close>

definition example_constants :: constants where
  "example_constants =
     \<lparr>DATA_TYPE_SPATIAL = \<lparr>oid = 1, chars = ''spatial''\<rparr>,
      DATA_TYPE_SINGLE_CELL = \<lparr>oid = 2, chars = ''scRNAseq''\<rparr>,
      SPECIES_HOMO_SAPIENS = ''homo_sapiens'',
      SUPPORTED_SPECIES = [''homo_sapiens'', ''mus_musculus''],
      DRAW_TOP_10 = ''top_10'',
      SUPPORTED_DRAW = [''top_10'', ''all''],
      ACTIVITY_THRESH = 1 / 100\<rparr>"

definition example_counts :: "real frame" where
  "example_counts =
     \<lparr>row_index = [''gene1'', ''gene2'', ''gene3'', ''gene4'', ''gene6''],
      col_index = [''c1'', ''c2'', ''c3'', ''c4''],
      cells = [[1, 0, 2, 5], [0, 0, 1, 3], [4, 2, 0, 0], [7, 1, 1, 2], [3, 3, 0, 1]]\<rparr>"

definition example_subsample :: "real frame" where
  "example_subsample =
     \<lparr>row_index = [''gene1'', ''gene2'', ''gene3'', ''gene4'', ''gene6''],
      col_index = [''c1'', ''c3''],
      cells = [[1, 2], [0, 1], [4, 0], [7, 1], [3, 0]]\<rparr>"

definition example_targets :: "(string \<times> string list) list" where
  "example_targets = [(''m1'', [''gene1'', ''gene2'']), (''m2'', [''gene5''])]"

definition example_catalog :: catalog where
  "example_catalog m = (case map_of example_targets m of None \<Rightarrow> [] | Some genes \<Rightarrow> genes)"

text \<open>A stand-in for the two-sample test: the share of the target genes among the genes
  of the cell, and NaN when one of the two samples is empty.\<close>

definition example_test :: two_sample_test where
  "example_test targets background =
     (if targets = [] \<or> background = [] then NaN
      else Pval (real (length targets) / real (length targets + length background)))"

text \<open>A stand-in for the normalization: every count is halved.\<close>

definition example_normalize :: "real frame \<Rightarrow> real frame" where
  "example_normalize counts = counts\<lparr>cells := map (map (\<lambda>v. v / 2)) (cells counts)\<rparr>"

definition example_utils :: "((string \<times> string list) list, string list, real frame) utils" where
  "example_utils =
     \<lparr>check_data_type =
        (\<lambda>data_path. if data_path = ''/data/visium''
           then Inr (Some (DATA_TYPE_SPATIAL example_constants))
           else Inr (Some (DATA_TYPE_SINGLE_CELL example_constants))),
      visium_loader = (\<lambda>data_path. Inr example_counts),
      scRNAseq_preprocess_loader = (\<lambda>dataset_name data_path. Inr example_subsample),
      scRNAseq_loader = (\<lambda>data_path. Inr example_counts),
      normalize_counts = (\<lambda>counts. Inr (example_normalize counts)),
      mp_cpu_count = Inr 8,
      mir_data_loading =
        (\<lambda>miR_list species debug.
           Inr (example_targets,
                case miR_list of None \<Rightarrow> map fst example_targets | Some ms \<Rightarrow> ms)),
      compute_mir_activity =
        (\<lambda>counts_norm miR_list mti results_path cpus debug.
           Inr \<lparr>row_index = miR_list, col_index = col_index counts_norm,
                cells = map (\<lambda>m. map (\<lambda>c. sentinel_pval) (col_index counts_norm)) miR_list\<rparr>),
      get_spatial_coors =
        (\<lambda>data_path counts_norm.
           Inr \<lparr>row_index = col_index counts_norm, col_index = [''x'', ''y''],
                cells = map (\<lambda>c. [0, 0]) (col_index counts_norm)\<rparr>),
      sort_activity_spatial =
        (\<lambda>pvals thresh spots results_path dataset_name. Inr (row_index pvals)),
      get_figure_list = (\<lambda>miR_list miR_figures ranked. Inr (take 10 ranked)),
      produce_spatial_maps =
        (\<lambda>figs pvals coors results_path dataset_name ranked. Inr ()),
      generate_umap = (\<lambda>counts pvals populations. Inr counts),
      sort_activity_sc = (\<lambda>pvals populations. Inr (row_index pvals)),
      plot_sc = (\<lambda>figs enriched results_path dataset_name ranked pvals populations. Inr ())\<rparr>"


text \<open>A command line that names the dataset and leaves every other flag at its default.\<close>

definition example_flags :: flags where
  "example_flags =
     (flag_defaults example_constants)
       \<lparr>flag_data_path := Some ''/data/ds1'', flag_dataset_name := Some ''ds1''\<rparr>"

section \<open>Properties of the scoring engine\<close>

text \<open>The slices of the static partition, put one after the other, are the work list.\<close>

lemma those_map_Some: "those (map (\<lambda>i. Some (f i)) xs) = Some (map f xs)"
  by (induction xs) auto

lemma concat_slices_take:
  "concat (map (work_slice sz xs) [0..<k]) = take (k * sz) xs"
proof (induction k)
  case 0
  show ?case by simp
next
  case (Suc k)
  have "take (k * sz + sz) xs = take (k * sz) xs @ take sz (drop (k * sz) xs)"
    by (rule take_add)
  with Suc show ?case by (simp add: work_slice_def add.commute)
qed

lemma slice_size_covers: "0 < k \<Longrightarrow> n \<le> k * slice_size n k"
proof -
  assume k: "0 < k"
  have "n + k - 1 = k * ((n + k - 1) div k) + (n + k - 1) mod k" by simp
  moreover have "(n + k - 1) mod k < k" using k by simp
  ultimately show ?thesis unfolding slice_size_def by linarith
qed

lemma concat_slices:
  "0 < k \<Longrightarrow> concat (map (work_slice (slice_size (length xs) k) xs) [0..<k]) = xs"
  by (simp add: concat_slices_take slice_size_covers)

lemma mset_concat_map_cong:
  "mset xs = mset ys \<Longrightarrow> mset (concat (map f xs)) = mset (concat (map f ys))"
proof -
  assume "mset xs = mset ys"
  have "\<And>zs. mset (concat (map f zs)) = (\<Sum>z\<in>#mset zs. mset (f z))"
    subgoal for zs by (induction zs) auto
    done
  then show ?thesis using \<open>mset xs = mset ys\<close> by simp
qed


lemma worker_outputs_in_order:
  assumes "0 < k"
  shows "concat (map (worker test M cat (slice_size (length L) k) (enumerate 0 L)) [0..<k])
           = map (\<lambda>(i, m). (i, score_row test M cat m)) (enumerate 0 L)"
proof -
  let ?g = "\<lambda>(i, m). (i, score_row test M cat m)"
  let ?items = "enumerate 0 L"
  have len: "length ?items = length L" by simp
  have "concat (map (worker test M cat (slice_size (length L) k) ?items) [0..<k])
          = map ?g (concat (map (work_slice (slice_size (length ?items) k) ?items) [0..<k]))"
    unfolding worker_def len by (simp add: map_concat comp_def)
  also have "\<dots> = map ?g ?items"
    using assms by (simp only: concat_slices)
  finally show ?thesis .
qed

lemma map_of_scored:
  assumes "i < length L"
  shows "map_of (map (\<lambda>(i, m). (i, score_row test M cat m)) (enumerate 0 L)) i
           = Some (score_row test M cat (L ! i))"
proof -
  let ?ys = "map (\<lambda>(i, m). (i, score_row test M cat m)) (enumerate 0 L)"
  have fst: "map fst ?ys = [0..<length L]"
    by (simp add: comp_def case_prod_unfold map_fst_enumerate[simplified])
  have "distinct (map fst ?ys)" unfolding fst by simp
  moreover have "(i, score_row test M cat (L ! i)) \<in> set ?ys"
  proof -
    have "(i, L ! i) \<in> set (enumerate 0 L)" using assms by (simp add: in_set_enumerate_eq)
    then show ?thesis by force
  qed
  ultimately show ?thesis by (rule map_of_is_SomeI)
qed

lemma map_of_mset_cong:
  assumes "mset xs = mset ys" "distinct (map fst ys)"
  shows "map_of xs = map_of ys"
proof -
  have "mset (map fst xs) = mset (map fst ys)" using assms(1) by (metis mset_map)
  then have d: "distinct (map fst xs)" using assms(2) by (metis mset_eq_imp_distinct_iff)
  have s: "set xs = set ys" using assms(1) by (rule mset_eq_setD)
  show ?thesis by (rule map_of_inject_set[THEN iffD2, OF d assms(2) s])
qed

lemma reassemble_scored:
  assumes "mset outs = mset (map (\<lambda>(i, m). (i, score_row test M cat m)) (enumerate 0 L))"
  shows "reassemble (length L) outs = Some (map (score_row test M cat) L)"
proof -
  let ?ys = "map (\<lambda>(i, m). (i, score_row test M cat m)) (enumerate 0 L)"
  have "map fst ?ys = [0..<length L]"
    by (simp add: comp_def case_prod_unfold map_fst_enumerate[simplified])
  then have "distinct (map fst ?ys)" by simp
  with assms have eq: "map_of outs = map_of ?ys" by (rule map_of_mset_cong)
  have "map (map_of outs) [0..<length L]
          = map (\<lambda>i. Some (score_row test M cat (L ! i))) [0..<length L]"
    unfolding eq by (rule map_cong) (simp_all add: map_of_scored)
  then have "reassemble (length L) outs
          = Some (map (\<lambda>i. score_row test M cat (L ! i)) [0..<length L])"
    unfolding reassemble_def by (simp only: those_map_Some)
  also have "map (\<lambda>i. score_row test M cat (L ! i)) [0..<length L] = map (score_row test M cat) L"
    by (rule nth_equalityI) simp_all
  finally show ?thesis .
qed

lemma score_rows:
  assumes "0 < k" "mset arrival = mset [0..<k]"
  shows "score test M L cat k arrival
           = Some \<lparr>row_index = L, col_index = col_index M, cells = map (score_row test M cat) L\<rparr>"
proof -
  let ?w = "worker test M cat (slice_size (length L) k) (enumerate 0 L)"
  have "mset (concat (map ?w arrival)) = mset (concat (map ?w [0..<k]))"
    using assms(2) by (rule mset_concat_map_cong)
  then have "mset (concat (map ?w arrival))
               = mset (map (\<lambda>(i, m). (i, score_row test M cat m)) (enumerate 0 L))"
    using assms(1) by (simp only: worker_outputs_in_order)
  then have "reassemble (length L) (concat (map ?w arrival)) = Some (map (score_row test M cat) L)"
    by (rule reassemble_scored)
  then show ?thesis using assms(1) by (simp add: score_def Let_def)
qed


text \<open>
  C1. For a fixed normalized matrix, microRNA list and target catalog the activity
  matrix is the same for every worker count: with \<open>k \<ge> 1\<close> workers, finishing in any
  order, the engine returns what a single worker returns. There is no randomization in
  the engine, and the rows are gathered by position, so the order of arrival does not
  show in the result.
\<close>

theorem score_worker_count_invariant:
  assumes "1 \<le> k" and "mset arrival = mset [0..<k]"
  shows "score test M L cat k arrival = score test M L cat 1 [0]"
proof -
  have "score test M L cat k arrival
          = Some \<lparr>row_index = L, col_index = col_index M, cells = map (score_row test M cat) L\<rparr>"
    using assms by (intro score_rows) simp_all
  moreover have "score test M L cat 1 [0]
          = Some \<lparr>row_index = L, col_index = col_index M, cells = map (score_row test M cat) L\<rparr>"
    by (intro score_rows) simp_all
  ultimately show ?thesis by simp
qed

theorem score_worker_count_invariant_witness:
  "(1::nat) \<le> 2 \<and> mset [1, 0] = mset [0..<2]
   \<and> score example_test example_counts [''m1'', ''m2''] example_catalog 2 [1, 0]
       = score example_test example_counts [''m1'', ''m2''] example_catalog 1 [0]"
proof -
  have h1: "(1::nat) \<le> 2" by simp
  have h2: "mset [1, 0] = mset [0..<2]" by (simp add: upt_rec)
  show ?thesis
    using h1 h2 score_worker_count_invariant [OF h1 h2, of example_test example_counts
        "[''m1'', ''m2'']" example_catalog]
    by blast
qed

text \<open>
  C6. A microRNA of the list none of whose target genes is in the gene index of the
  matrix is kept in the result: the engine returns a matrix whose rows are the whole
  list, and the row of that microRNA holds the sentinel p-value in every cell. The run
  does not fail.
\<close>

theorem zero_overlap_sentinel:
  assumes "1 \<le> k" and "mset arrival = mset [0..<k]"
    and "i < length L" and "set (cat (L ! i)) \<inter> set (row_index M) = {}"
  shows "\<exists>R. score test M L cat k arrival = Some R
             \<and> row_index R = L \<and> length (cells R) = length L
             \<and> cells R ! i = replicate (length (col_index M)) sentinel_pval"
proof -
  have "overlap M cat (L ! i) = []"
    using assms(4) unfolding overlap_def by (auto simp: filter_empty_conv)
  then have "score_row test M cat (L ! i) = replicate (length (col_index M)) sentinel_pval"
    by (simp add: score_row_def)
  moreover have "score test M L cat k arrival
          = Some \<lparr>row_index = L, col_index = col_index M, cells = map (score_row test M cat) L\<rparr>"
    using assms(1,2) by (intro score_rows) simp_all
  ultimately show ?thesis using assms(3) by simp
qed

theorem zero_overlap_sentinel_witness:
  "\<exists>R. score example_test example_counts [''m1'', ''m2''] example_catalog 2 [1, 0] = Some R
       \<and> row_index R = [''m1'', ''m2''] \<and> length (cells R) = length [''m1'', ''m2'']
       \<and> cells R ! 1 = [Pval 1, Pval 1, Pval 1, Pval 1]"
proof -
  have h1: "(1::nat) \<le> 2" by simp
  have h2: "mset [1, 0] = mset [0..<2]" by (simp add: upt_rec)
  have h3: "(1::nat) < length [''m1'', ''m2'']" by simp
  have h4: "set (example_catalog ([''m1'', ''m2''] ! 1)) \<inter> set (row_index example_counts) = {}"
    by (simp add: example_catalog_def example_targets_def example_counts_def)
  show ?thesis
    using zero_overlap_sentinel [where k = 2 and arrival = "[1, 0]" and i = 1
        and L = "[''m1'', ''m2'']" and cat = example_catalog and M = example_counts
        and test = example_test, OF h1 h2 h3 h4]
    by (simp add: example_counts_def sentinel_pval_def)
qed

text \<open>The end-to-end scenario of the specification, with two workers of which the second
  finishes first.\<close>

lemma scenario_scores:
  "score example_test example_counts [''m1'', ''m2''] example_catalog 2 [1, 0]
     = Some \<lparr>row_index = [''m1'', ''m2''], col_index = [''c1'', ''c2'', ''c3'', ''c4''],
         cells = [[Pval (2 / 5), Pval (2 / 5), Pval (2 / 5), Pval (2 / 5)],
                  [Pval 1, Pval 1, Pval 1, Pval 1]]\<rparr>"
proof -
  have "score example_test example_counts [''m1'', ''m2''] example_catalog 2 [1, 0]
     = Some \<lparr>row_index = [''m1'', ''m2''], col_index = col_index example_counts,
         cells = map (score_row example_test example_counts example_catalog) [''m1'', ''m2'']\<rparr>"
    by (intro score_rows) (simp_all add: upt_rec)
  then show ?thesis
    by (simp add: score_row_def overlap_def score_cell_def column_def example_test_def
        example_catalog_def example_targets_def example_counts_def sentinel_pval_def upt_rec)
qed

section \<open>Properties of the pipeline\<close>

text \<open>How runs compose, and what a run of \<^verbatim>\<open>compute\<close> consists of.\<close>

named_theorems run_simps

lemma bind_run_call_Inr [run_simps]: "bind_run (call ev (Inr x)) f = (ev # fst (f x), snd (f x))"
  by (simp add: bind_run_def call_def)

lemma bind_run_call_Inl [run_simps]: "bind_run (call ev (Inl e)) f = ([ev], Inl e)"
  by (simp add: bind_run_def call_def)

lemma bind_run_ret [run_simps]: "bind_run (ret x) f = f x"
  by (simp add: bind_run_def ret_def)

lemma bind_run_raise [run_simps]: "bind_run (raise e) f = ([], Inl e)"
  by (simp add: bind_run_def raise_def)

lemma bind_run_Inr [run_simps]: "bind_run (tr, Inr x) f = (tr @ fst (f x), snd (f x))"
  by (simp add: bind_run_def)

lemma bind_run_Inl [run_simps]: "bind_run (tr, Inl e) f = (tr, Inl e)"
  by (simp add: bind_run_def)

lemma fst_bind_run:
  "fst (bind_run m f) = fst m @ (case snd m of Inl e \<Rightarrow> [] | Inr x \<Rightarrow> fst (f x))"
  by (simp add: bind_run_def split: sum.splits)

lemma snd_bind_run:
  "snd (bind_run m f) = (case snd m of Inl e \<Rightarrow> Inl e | Inr x \<Rightarrow> snd (f x))"
  by (simp add: bind_run_def split: sum.splits)

lemma fst_call [run_simps]: "fst (call ev r) = [ev]"
  by (simp add: call_def)
lemma snd_call [run_simps]: "snd (call ev r) = r"
  by (simp add: call_def)
lemma fst_ret [run_simps]: "fst (ret x) = []"
  by (simp add: ret_def)
lemma snd_ret [run_simps]: "snd (ret x) = Inr x"
  by (simp add: ret_def)
lemma fst_raise [run_simps]: "fst (raise e) = []"
  by (simp add: raise_def)
lemma snd_raise [run_simps]: "snd (raise e) = Inl e"
  by (simp add: raise_def)

lemma detect_if_missing_run:
  "detect_if_missing U data_path data_type =
     (if truthy_type data_type then [] else [Check_data_type data_path],
      if truthy_type data_type then Inr data_type else check_data_type U data_path)"
  by (simp add: detect_if_missing_def call_def ret_def)

text \<open>The trace of \<^verbatim>\<open>compute\<close>: the detection, then the traces of the functions it
  sequences, as far as the run gets.\<close>

lemma compute_trace:
  "fst (compute U C data_path dataset_name miR_list cpus results_path species_arg figs_arg
          pre_arg thresh_arg pops_arg debug_arg) =
   Check_data_type data_path #
   (case check_data_type U data_path of
      Inl e \<Rightarrow> []
    | Inr data_type \<Rightarrow>
        fst (data_handling U C data_path dataset_name data_type
               (Given (bind_default (Some True) pre_arg))) @
        (case snd (data_handling U C data_path dataset_name data_type
                     (Given (bind_default (Some True) pre_arg))) of
           Inl e \<Rightarrow> []
         | Inr (counts_norm, counts) \<Rightarrow>
             fst (computing_mir_activity U C counts_norm
                    (resolved_path data_path dataset_name results_path) miR_list cpus
                    (Given (bind_default (SPECIES_HOMO_SAPIENS C) species_arg))
                    (Given (bind_default False debug_arg))) @
             (case snd (computing_mir_activity U C counts_norm
                          (resolved_path data_path dataset_name results_path) miR_list cpus
                          (Given (bind_default (SPECIES_HOMO_SAPIENS C) species_arg))
                          (Given (bind_default False debug_arg))) of
                Inl e \<Rightarrow> []
              | Inr (miR_list', pvals) \<Rightarrow>
                  if py_eq data_type (DATA_TYPE_SPATIAL C)
                  then fst (mir_post_processing_spatial U C data_path counts_norm pvals
                              miR_list' (resolved_path data_path dataset_name results_path)
                              dataset_name data_type
                              (Given (bind_default (DRAW_TOP_10 C) figs_arg))
                              (Given (bind_default (ACTIVITY_THRESH C) thresh_arg)))
                  else fst (mir_post_processing_sc U C data_path counts pvals
                              miR_list' (resolved_path data_path dataset_name results_path)
                              dataset_name data_type
                              (Given (bind_default (DRAW_TOP_10 C) figs_arg))
                              (Given (bind_default None pops_arg))))))"
  unfolding compute_def Let_def
  by (simp add: run_simps fst_bind_run snd_bind_run split: sum.splits prod.splits)

subsection \<open>Example runs\<close>

lemmas example_defs =
  example_utils_def example_constants_def example_counts_def example_subsample_def
  example_targets_def sentinel_pval_def example_normalize_def

lemmas main_defs =
  compute_def data_handling_def computing_mir_activity_def mir_post_processing_spatial_def
  mir_post_processing_sc_def detect_if_missing_def cpus_or_all_def
  py_eq_def py_is_def truthy_type_def truthy_bool_def path_join_def resolved_path_def
  shape0_def

lemma example_run_sc:
  "compute example_utils example_constants ''/data/ds1'' ''ds1'' None (Some 2) (Some ''/out'')
     Omitted Omitted Omitted Omitted Omitted Omitted =
   ([Check_data_type ''/data/ds1'',
     Call_data_handling ''/data/ds1'' ''ds1'' (Some \<lparr>oid = 2, chars = ''scRNAseq''\<rparr>) (Some True),
     ScRNAseq_preprocess_loader ''ds1'' ''/data/ds1'',
     Normalize_counts example_subsample,
     Call_computing_mir_activity (example_normalize example_subsample) ''/out/ds1'' None (Some 2) ''homo_sapiens'' False,
     Mir_data_loading None ''homo_sapiens'' False,
     Compute_mir_activity (example_normalize example_subsample) [''m1'', ''m2''] example_targets ''/out/ds1'' 2 False,
     Call_mir_post_processing_sc ''/data/ds1'' example_subsample
       \<lparr>row_index = [''m1'', ''m2''], col_index = [''c1'', ''c3''],
          cells = [[Pval 1, Pval 1], [Pval 1, Pval 1]]\<rparr>
       [''m1'', ''m2''] ''/out/ds1'' ''ds1'' (Some \<lparr>oid = 2, chars = ''scRNAseq''\<rparr>) ''top_10'' None,
     Generate_umap example_subsample
       \<lparr>row_index = [''m1'', ''m2''], col_index = [''c1'', ''c3''],
          cells = [[Pval 1, Pval 1], [Pval 1, Pval 1]]\<rparr> None,
     Sort_activity_sc
       \<lparr>row_index = [''m1'', ''m2''], col_index = [''c1'', ''c3''],
          cells = [[Pval 1, Pval 1], [Pval 1, Pval 1]]\<rparr> None,
     Get_figure_list [''m1'', ''m2''] ''top_10'' [''m1'', ''m2''],
     Plot_sc [''m1'', ''m2''] example_subsample ''/out/ds1'' ''ds1'' [''m1'', ''m2'']
       \<lparr>row_index = [''m1'', ''m2''], col_index = [''c1'', ''c3''],
          cells = [[Pval 1, Pval 1], [Pval 1, Pval 1]]\<rparr> None],
    Inr ())"
  by (simp add: main_defs example_defs run_simps Let_def)


lemma example_run_default_path:
  "fst (compute example_utils example_constants ''/data/ds1'' ''ds1'' None (Some 2) None
     Omitted Omitted Omitted Omitted Omitted Omitted) =
   [Check_data_type ''/data/ds1'',
     Call_data_handling ''/data/ds1'' ''ds1'' (Some \<lparr>oid = 2, chars = ''scRNAseq''\<rparr>) (Some True),
     ScRNAseq_preprocess_loader ''ds1'' ''/data/ds1'',
     Normalize_counts example_subsample,
     Call_computing_mir_activity (example_normalize example_subsample) ''/data/ds1/results'' None (Some 2) ''homo_sapiens'' False,
     Mir_data_loading None ''homo_sapiens'' False,
     Compute_mir_activity (example_normalize example_subsample) [''m1'', ''m2''] example_targets ''/data/ds1/results'' 2 False,
     Call_mir_post_processing_sc ''/data/ds1'' example_subsample
       \<lparr>row_index = [''m1'', ''m2''], col_index = [''c1'', ''c3''],
          cells = [[Pval 1, Pval 1], [Pval 1, Pval 1]]\<rparr>
       [''m1'', ''m2''] ''/data/ds1/results'' ''ds1'' (Some \<lparr>oid = 2, chars = ''scRNAseq''\<rparr>) ''top_10'' None,
     Generate_umap example_subsample
       \<lparr>row_index = [''m1'', ''m2''], col_index = [''c1'', ''c3''],
          cells = [[Pval 1, Pval 1], [Pval 1, Pval 1]]\<rparr> None,
     Sort_activity_sc
       \<lparr>row_index = [''m1'', ''m2''], col_index = [''c1'', ''c3''],
          cells = [[Pval 1, Pval 1], [Pval 1, Pval 1]]\<rparr> None,
     Get_figure_list [''m1'', ''m2''] ''top_10'' [''m1'', ''m2''],
     Plot_sc [''m1'', ''m2''] example_subsample ''/data/ds1/results'' ''ds1'' [''m1'', ''m2'']
       \<lparr>row_index = [''m1'', ''m2''], col_index = [''c1'', ''c3''],
          cells = [[Pval 1, Pval 1], [Pval 1, Pval 1]]\<rparr> None]"
  by (simp add: main_defs example_defs run_simps Let_def)

subsection \<open>The results path\<close>

lemma computing_paths:
  "\<forall>ev \<in> set (fst (computing_mir_activity U C counts_norm rp miR_list cpus species_arg debug_arg)).
     results_path_of ev = None \<or> results_path_of ev = Some rp"
  unfolding computing_mir_activity_def cpus_or_all_def Let_def
  by (auto simp: run_simps fst_bind_run snd_bind_run split: sum.splits option.splits prod.splits if_splits)

lemma data_handling_paths:
  "\<forall>ev \<in> set (fst (data_handling U C data_path dataset_name data_type preprocess_arg)).
     results_path_of ev = None"
  unfolding data_handling_def Let_def
  by (auto simp: run_simps fst_bind_run snd_bind_run detect_if_missing_run
      split: sum.splits option.splits prod.splits if_splits)

lemma post_spatial_paths:
  "\<forall>ev \<in> set (fst (mir_post_processing_spatial U C data_path counts_norm pvals miR_list rp
        dataset_name data_type figs_arg thresh_arg)).
     results_path_of ev = None \<or> results_path_of ev = Some rp"
  unfolding mir_post_processing_spatial_def Let_def
  by (auto simp: run_simps fst_bind_run snd_bind_run detect_if_missing_run
      split: sum.splits option.splits prod.splits if_splits)

lemma post_sc_paths:
  "\<forall>ev \<in> set (fst (mir_post_processing_sc U C data_path counts pvals miR_list rp
        dataset_name data_type figs_arg pops_arg)).
     results_path_of ev = None \<or> results_path_of ev = Some rp"
  unfolding mir_post_processing_sc_def Let_def
  by (auto simp: run_simps fst_bind_run snd_bind_run detect_if_missing_run
      split: sum.splits option.splits prod.splits if_splits)

lemma compute_paths:
  "\<forall>ev \<in> set (fst (compute U C data_path dataset_name miR_list cpus results_path species_arg
        figs_arg pre_arg thresh_arg pops_arg debug_arg)).
     results_path_of ev = None
     \<or> results_path_of ev = Some (resolved_path data_path dataset_name results_path)"
  unfolding compute_trace
  by (auto split: sum.splits prod.splits if_splits
      dest: data_handling_paths[rule_format] computing_paths[rule_format]
        post_spatial_paths[rule_format] post_sc_paths[rule_format])


text \<open>
  C2. The results path that \<^verbatim>\<open>compute\<close> resolves is \<^verbatim>\<open>join(results_path, dataset_name)\<close> when a
  non-empty results path is given and \<^verbatim>\<open>join(data_path, 'results')\<close> otherwise, and it is
  resolved before the first call: every call of the run that receives a results path,
  the scoring engine and the writing collaborators among them, receives the resolved one.
\<close>

theorem results_path_resolution:
  "(\<forall>rp. results_path = Some rp \<and> rp \<noteq> [] \<longrightarrow>
      (\<forall>ev \<in> set (fst (compute U C data_path dataset_name miR_list cpus results_path
                          species_arg figs_arg pre_arg thresh_arg pops_arg debug_arg)).
         results_path_of ev = None
         \<or> results_path_of ev = Some (path_join rp dataset_name)))
   \<and> (results_path = None \<or> results_path = Some [] \<longrightarrow>
      (\<forall>ev \<in> set (fst (compute U C data_path dataset_name miR_list cpus results_path
                          species_arg figs_arg pre_arg thresh_arg pops_arg debug_arg)).
         results_path_of ev = None
         \<or> results_path_of ev = Some (path_join data_path ''results'')))"
  using compute_paths [of U C data_path dataset_name miR_list cpus results_path
      species_arg figs_arg pre_arg thresh_arg pops_arg debug_arg]
  by (auto simp: resolved_path_def)

theorem results_path_resolution_witness:
  "path_join ''/out'' ''ds1'' = ''/out/ds1''
   \<and> path_join ''/data/ds1'' ''results'' = ''/data/ds1/results''
   \<and> list_all (\<lambda>ev. results_path_of ev = None \<or> results_path_of ev = Some ''/out/ds1'')
         (fst (compute example_utils example_constants ''/data/ds1'' ''ds1'' None
                 (Some 2) (Some ''/out'') Omitted Omitted Omitted Omitted Omitted Omitted))
   \<and> list_all (\<lambda>ev. results_path_of ev = None \<or> results_path_of ev = Some ''/data/ds1/results'')
         (fst (compute example_utils example_constants ''/data/ds1'' ''ds1'' None
                 (Some 2) None Omitted Omitted Omitted Omitted Omitted Omitted))
   \<and> Compute_mir_activity (example_normalize example_subsample) [''m1'', ''m2''] example_targets
         ''/out/ds1'' 2 False
         \<in> set (fst (compute example_utils example_constants ''/data/ds1'' ''ds1'' None
                        (Some 2) (Some ''/out'') Omitted Omitted Omitted Omitted Omitted Omitted))
   \<and> Compute_mir_activity (example_normalize example_subsample) [''m1'', ''m2''] example_targets
         ''/data/ds1/results'' 2 False
         \<in> set (fst (compute example_utils example_constants ''/data/ds1'' ''ds1'' None
                        (Some 2) None Omitted Omitted Omitted Omitted Omitted Omitted))"
proof -
  have j1: "path_join ''/out'' ''ds1'' = ''/out/ds1''" by (simp add: path_join_def)
  have j2: "path_join ''/data/ds1'' ''results'' = ''/data/ds1/results''"
    by (simp add: path_join_def)
  have a: "list_all (\<lambda>ev. results_path_of ev = None \<or> results_path_of ev = Some ''/out/ds1'')
         (fst (compute example_utils example_constants ''/data/ds1'' ''ds1'' None
                 (Some 2) (Some ''/out'') Omitted Omitted Omitted Omitted Omitted Omitted))"
    using results_path_resolution [where results_path = "Some ''/out''" and U = example_utils
        and C = example_constants and data_path = "''/data/ds1''" and dataset_name = "''ds1''"
        and miR_list = None and cpus = "Some 2" and species_arg = Omitted and figs_arg = Omitted
        and pre_arg = Omitted and thresh_arg = Omitted and pops_arg = Omitted
        and debug_arg = Omitted]
    by (simp add: j1 list_all_iff)
  have b: "list_all (\<lambda>ev. results_path_of ev = None \<or> results_path_of ev = Some ''/data/ds1/results'')
         (fst (compute example_utils example_constants ''/data/ds1'' ''ds1'' None
                 (Some 2) None Omitted Omitted Omitted Omitted Omitted Omitted))"
    using results_path_resolution [where results_path = None and U = example_utils
        and C = example_constants and data_path = "''/data/ds1''" and dataset_name = "''ds1''"
        and miR_list = None and cpus = "Some 2" and species_arg = Omitted and figs_arg = Omitted
        and pre_arg = Omitted and thresh_arg = Omitted and pops_arg = Omitted
        and debug_arg = Omitted]
    by (simp add: j2 list_all_iff)
  have c: "Compute_mir_activity (example_normalize example_subsample) [''m1'', ''m2''] example_targets
         ''/out/ds1'' 2 False
         \<in> set (fst (compute example_utils example_constants ''/data/ds1'' ''ds1'' None
                        (Some 2) (Some ''/out'') Omitted Omitted Omitted Omitted Omitted Omitted))"
    by (simp add: example_run_sc)
  have d: "Compute_mir_activity (example_normalize example_subsample) [''m1'', ''m2''] example_targets
         ''/data/ds1/results'' 2 False
         \<in> set (fst (compute example_utils example_constants ''/data/ds1'' ''ds1'' None
                        (Some 2) None Omitted Omitted Omitted Omitted Omitted Omitted))"
    by (simp add: example_run_default_path)
  from j1 j2 a b c d show ?thesis by blast
qed

subsection \<open>The type guard of the postprocessors\<close>

lemma not_eq_not_is: "\<not> py_eq x c \<Longrightarrow> \<not> py_is x c"
  by (auto simp: py_eq_def py_is_def)

text \<open>
  C3. When the data type a postprocessor resolves (the one it is given, or the one
  detection returns when none is given) does not match the type it requires, the
  postprocessor raises \<^verbatim>\<open>UsageError\<close> with the data path as argument. Its run then
  consists of its own entry and, when it had to detect, the detection: no coordinates
  are read, nothing is ranked and no figure is produced. This holds for the spatial
  postprocessor on anything but spatial data and for the single-cell postprocessor on
  anything but single-cell data.
\<close>

theorem postprocessor_type_guard:
  assumes "(if truthy_type data_type then Inr data_type else check_data_type U data_path)
             = Inr resolved"
  shows "(\<not> py_eq resolved (DATA_TYPE_SPATIAL C) \<longrightarrow>
            mir_post_processing_spatial U C data_path counts_norm pvals miR_list results_path
                dataset_name data_type figs_arg thresh_arg
              = (Call_mir_post_processing_spatial data_path counts_norm pvals miR_list
                   results_path dataset_name data_type (bind_default (DRAW_TOP_10 C) figs_arg)
                   (bind_default (ACTIVITY_THRESH C) thresh_arg)
                   # (if truthy_type data_type then [] else [Check_data_type data_path]),
                 Inl (UsageError ''No spatial data was found for post-processing in %s''
                        data_path)))
       \<and> (\<not> py_eq resolved (DATA_TYPE_SINGLE_CELL C) \<longrightarrow>
            mir_post_processing_sc U C data_path counts pvals miR_list results_path
                dataset_name data_type figs_arg pops_arg
              = (Call_mir_post_processing_sc data_path counts pvals miR_list
                   results_path dataset_name data_type (bind_default (DRAW_TOP_10 C) figs_arg)
                   (bind_default None pops_arg)
                   # (if truthy_type data_type then [] else [Check_data_type data_path]),
                 Inl (UsageError ''No scRNAseq data was found for post-processing in %s''
                        data_path)))"
proof (intro conjI impI)
  assume ne: "\<not> py_eq resolved (DATA_TYPE_SPATIAL C)"
  then have "\<not> py_is resolved (DATA_TYPE_SPATIAL C)" by (rule not_eq_not_is)
  with assms show "mir_post_processing_spatial U C data_path counts_norm pvals miR_list
      results_path dataset_name data_type figs_arg thresh_arg
    = (Call_mir_post_processing_spatial data_path counts_norm pvals miR_list
         results_path dataset_name data_type (bind_default (DRAW_TOP_10 C) figs_arg)
         (bind_default (ACTIVITY_THRESH C) thresh_arg)
         # (if truthy_type data_type then [] else [Check_data_type data_path]),
       Inl (UsageError ''No spatial data was found for post-processing in %s'' data_path))"
    unfolding mir_post_processing_spatial_def Let_def
    by (simp add: run_simps fst_bind_run snd_bind_run detect_if_missing_run
        split: if_splits)
next
  assume ne: "\<not> py_eq resolved (DATA_TYPE_SINGLE_CELL C)"
  then have "\<not> py_is resolved (DATA_TYPE_SINGLE_CELL C)" by (rule not_eq_not_is)
  with assms show "mir_post_processing_sc U C data_path counts pvals miR_list results_path
      dataset_name data_type figs_arg pops_arg
    = (Call_mir_post_processing_sc data_path counts pvals miR_list
         results_path dataset_name data_type (bind_default (DRAW_TOP_10 C) figs_arg)
         (bind_default None pops_arg)
         # (if truthy_type data_type then [] else [Check_data_type data_path]),
       Inl (UsageError ''No scRNAseq data was found for post-processing in %s'' data_path))"
    unfolding mir_post_processing_sc_def Let_def
    by (simp add: run_simps fst_bind_run snd_bind_run detect_if_missing_run
        split: if_splits)
qed

text \<open>The guard compares objects, as \<^verbatim>\<open>is not\<close> does: a string that reads \<^verbatim>\<open>'spatial'\<close> but is
  not the constant's own object is turned away too.\<close>

lemma postprocessor_compares_identity:
  "snd (mir_post_processing_spatial example_utils example_constants ''/data/visium''
          example_counts pvals [''m1''] ''/out/ds1'' ''ds1''
          (Some \<lparr>oid = 7, chars = ''spatial''\<rparr>) Omitted Omitted)
     = Inl (UsageError ''No spatial data was found for post-processing in %s'' ''/data/visium'')"
  by (simp add: main_defs example_defs run_simps Let_def)

theorem postprocessor_type_guard_witness:
  "mir_post_processing_spatial example_utils example_constants ''/data/ds1'' example_counts
       \<lparr>row_index = [''m1''], col_index = col_index example_counts, cells = [[NaN, NaN, NaN, NaN]]\<rparr>
       [''m1''] ''/out/ds1'' ''ds1'' None Omitted Omitted
     = ([Call_mir_post_processing_spatial ''/data/ds1'' example_counts
           \<lparr>row_index = [''m1''], col_index = col_index example_counts, cells = [[NaN, NaN, NaN, NaN]]\<rparr>
           [''m1''] ''/out/ds1'' ''ds1'' None ''top_10'' (1 / 100),
         Check_data_type ''/data/ds1''],
        Inl (UsageError ''No spatial data was found for post-processing in %s'' ''/data/ds1''))
   \<and> mir_post_processing_sc example_utils example_constants ''/data/visium'' example_counts
       \<lparr>row_index = [''m1''], col_index = col_index example_counts, cells = [[NaN, NaN, NaN, NaN]]\<rparr>
       [''m1''] ''/out/ds1'' ''ds1'' (Some \<lparr>oid = 1, chars = ''spatial''\<rparr>) Omitted Omitted
     = ([Call_mir_post_processing_sc ''/data/visium'' example_counts
           \<lparr>row_index = [''m1''], col_index = col_index example_counts, cells = [[NaN, NaN, NaN, NaN]]\<rparr>
           [''m1''] ''/out/ds1'' ''ds1'' (Some \<lparr>oid = 1, chars = ''spatial''\<rparr>) ''top_10'' None],
        Inl (UsageError ''No scRNAseq data was found for post-processing in %s'' ''/data/visium''))"
proof -
  have h1: "(if truthy_type None then Inr None else check_data_type example_utils ''/data/ds1'')
              = Inr (Some \<lparr>oid = 2, chars = ''scRNAseq''\<rparr>)"
    by (simp add: truthy_type_def example_defs)
  have n1: "\<not> py_eq (Some \<lparr>oid = 2, chars = ''scRNAseq''\<rparr>) (DATA_TYPE_SPATIAL example_constants)"
    by (simp add: py_eq_def example_defs)
  have h2: "(if truthy_type (Some \<lparr>oid = 1, chars = ''spatial''\<rparr>)
              then Inr (Some \<lparr>oid = 1, chars = ''spatial''\<rparr>)
              else check_data_type example_utils ''/data/visium'')
              = Inr (Some \<lparr>oid = 1, chars = ''spatial''\<rparr>)"
    by (simp add: truthy_type_def)
  have n2: "\<not> py_eq (Some \<lparr>oid = 1, chars = ''spatial''\<rparr>)
               (DATA_TYPE_SINGLE_CELL example_constants)"
    by (simp add: py_eq_def example_defs)
  have a: "mir_post_processing_spatial example_utils example_constants ''/data/ds1'' example_counts
       \<lparr>row_index = [''m1''], col_index = col_index example_counts, cells = [[NaN, NaN, NaN, NaN]]\<rparr>
       [''m1''] ''/out/ds1'' ''ds1'' None Omitted Omitted
     = ([Call_mir_post_processing_spatial ''/data/ds1'' example_counts
           \<lparr>row_index = [''m1''], col_index = col_index example_counts, cells = [[NaN, NaN, NaN, NaN]]\<rparr>
           [''m1''] ''/out/ds1'' ''ds1'' None ''top_10'' (1 / 100),
         Check_data_type ''/data/ds1''],
        Inl (UsageError ''No spatial data was found for post-processing in %s'' ''/data/ds1''))"
    using postprocessor_type_guard [OF h1, where C = example_constants, THEN conjunct1, rule_format, OF n1,
        where counts_norm = example_counts and miR_list = "[''m1'']" and results_path = "''/out/ds1''"
          and dataset_name = "''ds1''" and figs_arg = Omitted and thresh_arg = Omitted]
    by (simp add: truthy_type_def example_constants_def)
  have b: "mir_post_processing_sc example_utils example_constants ''/data/visium'' example_counts
       \<lparr>row_index = [''m1''], col_index = col_index example_counts, cells = [[NaN, NaN, NaN, NaN]]\<rparr>
       [''m1''] ''/out/ds1'' ''ds1'' (Some \<lparr>oid = 1, chars = ''spatial''\<rparr>) Omitted Omitted
     = ([Call_mir_post_processing_sc ''/data/visium'' example_counts
           \<lparr>row_index = [''m1''], col_index = col_index example_counts, cells = [[NaN, NaN, NaN, NaN]]\<rparr>
           [''m1''] ''/out/ds1'' ''ds1'' (Some \<lparr>oid = 1, chars = ''spatial''\<rparr>) ''top_10'' None],
        Inl (UsageError ''No scRNAseq data was found for post-processing in %s'' ''/data/visium''))"
    using postprocessor_type_guard [OF h2, where C = example_constants, THEN conjunct2, rule_format, OF n2,
        where counts = example_counts and miR_list = "[''m1'']" and results_path = "''/out/ds1''"
          and dataset_name = "''ds1''" and figs_arg = Omitted and pops_arg = Omitted]
    by (simp add: truthy_type_def example_constants_def)
  from a b show ?thesis by blast
qed

subsection \<open>The dispatch to a postprocessor\<close>

lemma data_handling_no_post:
  "filter is_postprocessor_call
     (fst (data_handling U C data_path dataset_name data_type preprocess_arg)) = []"
  unfolding data_handling_def Let_def
  by (auto simp: run_simps fst_bind_run snd_bind_run detect_if_missing_run
      split: sum.splits option.splits prod.splits if_splits)

lemma computing_no_post:
  "filter is_postprocessor_call
     (fst (computing_mir_activity U C counts_norm rp miR_list cpus species_arg debug_arg)) = []"
  unfolding computing_mir_activity_def cpus_or_all_def Let_def
  by (auto simp: run_simps fst_bind_run snd_bind_run
      split: sum.splits option.splits prod.splits if_splits)

lemma post_spatial_one_post:
  "filter is_postprocessor_call
     (fst (mir_post_processing_spatial U C data_path counts_norm pvals miR_list rp
            dataset_name data_type figs_arg thresh_arg))
   = [Call_mir_post_processing_spatial data_path counts_norm pvals miR_list rp dataset_name
        data_type (bind_default (DRAW_TOP_10 C) figs_arg)
        (bind_default (ACTIVITY_THRESH C) thresh_arg)]"
  unfolding mir_post_processing_spatial_def Let_def
  by (auto simp: run_simps fst_bind_run snd_bind_run detect_if_missing_run
      split: sum.splits option.splits prod.splits if_splits)

lemma post_sc_one_post:
  "filter is_postprocessor_call
     (fst (mir_post_processing_sc U C data_path counts pvals miR_list rp
            dataset_name data_type figs_arg pops_arg))
   = [Call_mir_post_processing_sc data_path counts pvals miR_list rp dataset_name
        data_type (bind_default (DRAW_TOP_10 C) figs_arg) (bind_default None pops_arg)]"
  unfolding mir_post_processing_sc_def Let_def
  by (auto simp: run_simps fst_bind_run snd_bind_run detect_if_missing_run
      split: sum.splits option.splits prod.splits if_splits)

lemmas post_filters =
  data_handling_no_post computing_no_post post_spatial_one_post post_sc_one_post

text \<open>
  C4. A run of \<^verbatim>\<open>compute\<close> enters at most one postprocessor. When detection, loading and
  scoring have returned, it enters exactly one: the spatial postprocessor with the
  normalized matrix if the detected type equals the spatial type, the single-cell
  postprocessor with the raw matrix otherwise.
\<close>

theorem postprocess_dispatch:
  "length (filter is_postprocessor_call
     (fst (compute U C data_path dataset_name miR_list cpus results_path species_arg figs_arg
             pre_arg thresh_arg pops_arg debug_arg))) \<le> 1
   \<and> (check_data_type U data_path = Inr data_type
      \<and> snd (data_handling U C data_path dataset_name data_type
                (Given (bind_default (Some True) pre_arg))) = Inr (counts_norm, counts)
      \<and> snd (computing_mir_activity U C counts_norm
                (resolved_path data_path dataset_name results_path) miR_list cpus
                (Given (bind_default (SPECIES_HOMO_SAPIENS C) species_arg))
                (Given (bind_default False debug_arg))) = Inr (miR_list', pvals)
      \<longrightarrow>
      filter is_postprocessor_call
        (fst (compute U C data_path dataset_name miR_list cpus results_path species_arg figs_arg
                pre_arg thresh_arg pops_arg debug_arg))
      = [if py_eq data_type (DATA_TYPE_SPATIAL C)
         then Call_mir_post_processing_spatial data_path counts_norm pvals miR_list'
                (resolved_path data_path dataset_name results_path) dataset_name data_type
                (bind_default (DRAW_TOP_10 C) figs_arg)
                (bind_default (ACTIVITY_THRESH C) thresh_arg)
         else Call_mir_post_processing_sc data_path counts pvals miR_list'
                (resolved_path data_path dataset_name results_path) dataset_name data_type
                (bind_default (DRAW_TOP_10 C) figs_arg) (bind_default None pops_arg)])"
  unfolding compute_trace
  by (simp add: post_filters split: sum.splits prod.splits)



theorem postprocess_dispatch_witness:
  "filter is_postprocessor_call
     (fst (compute example_utils example_constants ''/data/visium'' ''ds1'' (Some [''m2'']) None
             None Omitted Omitted Omitted Omitted Omitted Omitted))
   = [Call_mir_post_processing_spatial ''/data/visium'' (example_normalize example_counts)
        \<lparr>row_index = [''m2''], col_index = [''c1'', ''c2'', ''c3'', ''c4''],
           cells = [[Pval 1, Pval 1, Pval 1, Pval 1]]\<rparr>
        [''m2''] ''/data/visium/results'' ''ds1'' (Some \<lparr>oid = 1, chars = ''spatial''\<rparr>)
        ''top_10'' (1 / 100)]
   \<and> filter is_postprocessor_call
     (fst (compute example_utils example_constants ''/data/ds1'' ''ds1'' None (Some 2)
             (Some ''/out'') Omitted Omitted Omitted Omitted Omitted Omitted))
   = [Call_mir_post_processing_sc ''/data/ds1'' example_subsample
        \<lparr>row_index = [''m1'', ''m2''], col_index = [''c1'', ''c3''],
           cells = [[Pval 1, Pval 1], [Pval 1, Pval 1]]\<rparr>
        [''m1'', ''m2''] ''/out/ds1'' ''ds1'' (Some \<lparr>oid = 2, chars = ''scRNAseq''\<rparr>)
        ''top_10'' None]"
proof -
  have s1: "check_data_type example_utils ''/data/visium'' = Inr (Some \<lparr>oid = 1, chars = ''spatial''\<rparr>)"
    by (simp add: example_defs)
  have s2: "snd (data_handling example_utils example_constants ''/data/visium'' ''ds1''
                  (Some \<lparr>oid = 1, chars = ''spatial''\<rparr>) (Given (bind_default (Some True) Omitted)))
              = Inr (example_normalize example_counts, example_counts)"
    by (simp add: main_defs example_defs run_simps Let_def)
  have s3: "snd (computing_mir_activity example_utils example_constants
                  (example_normalize example_counts)
                  (resolved_path ''/data/visium'' ''ds1'' None) (Some [''m2'']) None
                  (Given (bind_default (SPECIES_HOMO_SAPIENS example_constants) Omitted))
                  (Given (bind_default False Omitted)))
              = Inr ([''m2''], \<lparr>row_index = [''m2''], col_index = [''c1'', ''c2'', ''c3'', ''c4''],
                                 cells = [[Pval 1, Pval 1, Pval 1, Pval 1]]\<rparr>)"
    by (simp add: main_defs example_defs run_simps Let_def)
  have t1: "check_data_type example_utils ''/data/ds1'' = Inr (Some \<lparr>oid = 2, chars = ''scRNAseq''\<rparr>)"
    by (simp add: example_defs)
  have t2: "snd (data_handling example_utils example_constants ''/data/ds1'' ''ds1''
                  (Some \<lparr>oid = 2, chars = ''scRNAseq''\<rparr>) (Given (bind_default (Some True) Omitted)))
              = Inr (example_normalize example_subsample, example_subsample)"
    by (simp add: main_defs example_defs run_simps Let_def)
  have t3: "snd (computing_mir_activity example_utils example_constants
                  (example_normalize example_subsample)
                  (resolved_path ''/data/ds1'' ''ds1'' (Some ''/out'')) None (Some 2)
                  (Given (bind_default (SPECIES_HOMO_SAPIENS example_constants) Omitted))
                  (Given (bind_default False Omitted)))
              = Inr ([''m1'', ''m2''], \<lparr>row_index = [''m1'', ''m2''], col_index = [''c1'', ''c3''],
                                 cells = [[Pval 1, Pval 1], [Pval 1, Pval 1]]\<rparr>)"
    by (simp add: main_defs example_defs run_simps Let_def)
  have a: "filter is_postprocessor_call
     (fst (compute example_utils example_constants ''/data/visium'' ''ds1'' (Some [''m2'']) None
             None Omitted Omitted Omitted Omitted Omitted Omitted))
   = [Call_mir_post_processing_spatial ''/data/visium'' (example_normalize example_counts)
        \<lparr>row_index = [''m2''], col_index = [''c1'', ''c2'', ''c3'', ''c4''],
           cells = [[Pval 1, Pval 1, Pval 1, Pval 1]]\<rparr>
        [''m2''] ''/data/visium/results'' ''ds1'' (Some \<lparr>oid = 1, chars = ''spatial''\<rparr>)
        ''top_10'' (1 / 100)]"
    using postprocess_dispatch [THEN conjunct2, rule_format, OF conjI [OF s1 conjI [OF s2 s3]],
        where figs_arg = Omitted and thresh_arg = Omitted and pops_arg = Omitted]
    by (simp add: py_eq_def resolved_path_def path_join_def example_constants_def)
  have b: "filter is_postprocessor_call
     (fst (compute example_utils example_constants ''/data/ds1'' ''ds1'' None (Some 2)
             (Some ''/out'') Omitted Omitted Omitted Omitted Omitted Omitted))
   = [Call_mir_post_processing_sc ''/data/ds1'' example_subsample
        \<lparr>row_index = [''m1'', ''m2''], col_index = [''c1'', ''c3''],
           cells = [[Pval 1, Pval 1], [Pval 1, Pval 1]]\<rparr>
        [''m1'', ''m2''] ''/out/ds1'' ''ds1'' (Some \<lparr>oid = 2, chars = ''scRNAseq''\<rparr>)
        ''top_10'' None]"
    using postprocess_dispatch [THEN conjunct2, rule_format, OF conjI [OF t1 conjI [OF t2 t3]],
        where figs_arg = Omitted and thresh_arg = Omitted and pops_arg = Omitted]
    by (simp add: py_eq_def resolved_path_def path_join_def example_constants_def)
  from a b show ?thesis by blast
qed

subsection \<open>Detection of the data type\<close>













subsection \<open>Worker count\<close>

text \<open>
  C7. When the microRNA data has loaded, \<^verbatim>\<open>computing_mir_activity\<close> calls the scoring
  engine once: with \<^verbatim>\<open>mp.cpu_count()\<close> workers when \<^verbatim>\<open>cpus\<close> is \<^verbatim>\<open>None\<close>, and with exactly
  \<open>k\<close> workers, without asking for the number of processing units, when \<^verbatim>\<open>cpus\<close> is a
  positive \<open>k\<close>.
\<close>

theorem worker_count_default:
  assumes "mir_data_loading U miR_list (bind_default (SPECIES_HOMO_SAPIENS C) species_arg)
             (bind_default False debug_arg) = Inr (mti, ml)"
  shows "(cpus = None \<and> mp_cpu_count U = Inr n \<longrightarrow>
            filter is_engine_call
              (fst (computing_mir_activity U C counts_norm results_path miR_list cpus
                      species_arg debug_arg))
              = [Compute_mir_activity counts_norm ml mti results_path n
                   (bind_default False debug_arg)])
       \<and> (cpus = Some k \<and> 0 < k \<longrightarrow>
            filter is_engine_call
              (fst (computing_mir_activity U C counts_norm results_path miR_list cpus
                      species_arg debug_arg))
              = [Compute_mir_activity counts_norm ml mti results_path k
                   (bind_default False debug_arg)]
            \<and> Cpu_count \<notin> set (fst (computing_mir_activity U C counts_norm results_path
                                        miR_list cpus species_arg debug_arg)))"
  using assms unfolding computing_mir_activity_def cpus_or_all_def Let_def
  by (auto simp: run_simps fst_bind_run snd_bind_run split: sum.splits prod.splits)

theorem worker_count_default_witness:
  "filter is_engine_call
     (fst (computing_mir_activity example_utils example_constants example_counts ''/out/ds1''
             None None Omitted Omitted))
     = [Compute_mir_activity example_counts [''m1'', ''m2''] example_targets ''/out/ds1'' 8 False]
   \<and> filter is_engine_call
     (fst (computing_mir_activity example_utils example_constants example_counts ''/out/ds1''
             None (Some 3) Omitted Omitted))
     = [Compute_mir_activity example_counts [''m1'', ''m2''] example_targets ''/out/ds1'' 3 False]
   \<and> Cpu_count \<notin> set (fst (computing_mir_activity example_utils example_constants
                               example_counts ''/out/ds1'' None (Some 3) Omitted Omitted))"
proof -
  have h: "mir_data_loading example_utils None
             (bind_default (SPECIES_HOMO_SAPIENS example_constants) Omitted)
             (bind_default False Omitted) = Inr (example_targets, [''m1'', ''m2''])"
    by (simp add: example_utils_def example_targets_def)
  have c: "mp_cpu_count example_utils = Inr 8" by (simp add: example_utils_def)
  have k: "(0::int) < 3" by simp
  note t = worker_count_default [OF h, where counts_norm = example_counts
      and results_path = "''/out/ds1''"]
  have a: "filter is_engine_call
     (fst (computing_mir_activity example_utils example_constants example_counts ''/out/ds1''
             None None Omitted Omitted))
     = [Compute_mir_activity example_counts [''m1'', ''m2''] example_targets ''/out/ds1'' 8 False]"
    using t [where cpus = None and n = 8, THEN conjunct1] c by simp
  have b: "filter is_engine_call
     (fst (computing_mir_activity example_utils example_constants example_counts ''/out/ds1''
             None (Some 3) Omitted Omitted))
     = [Compute_mir_activity example_counts [''m1'', ''m2''] example_targets ''/out/ds1'' 3 False]
   \<and> Cpu_count \<notin> set (fst (computing_mir_activity example_utils example_constants
                               example_counts ''/out/ds1'' None (Some 3) Omitted Omitted))"
    using t [where cpus = "Some 3" and k = 3, THEN conjunct2] k by simp
  from a b show ?thesis by simp
qed

subsection \<open>The preprocessing flag\<close>

lemma data_handling_loaders:
  assumes "(if truthy_type data_type then Inr data_type else check_data_type U data_path)
             = Inr resolved"
  shows "filter is_loader_call
           (fst (data_handling U C data_path dataset_name data_type preprocess_arg))
         = [if py_eq resolved (DATA_TYPE_SPATIAL C) then Visium_loader data_path
            else if truthy_bool (bind_default (Some True) preprocess_arg)
            then ScRNAseq_preprocess_loader dataset_name data_path
            else ScRNAseq_loader data_path]"
  using assms unfolding data_handling_def Let_def
  by (auto simp: run_simps fst_bind_run snd_bind_run detect_if_missing_run
      split: sum.splits prod.splits if_splits)

lemma data_handling_spatial_outcome:
  assumes "(if truthy_type data_type then Inr data_type else check_data_type U data_path)
             = Inr resolved"
    and "py_eq resolved (DATA_TYPE_SPATIAL C)"
  shows "snd (data_handling U C data_path dataset_name data_type preprocess_arg)
         = (case visium_loader U data_path of
              Inl e \<Rightarrow> Inl e
            | Inr counts \<Rightarrow>
                (case normalize_counts U counts of
                   Inl e \<Rightarrow> Inl e
                 | Inr counts_norm \<Rightarrow> Inr (counts_norm, counts)))"
  using assms unfolding data_handling_def Let_def
  by (auto simp: run_simps fst_bind_run snd_bind_run detect_if_missing_run
      split: sum.splits prod.splits if_splits)

text \<open>
  C9. The preprocessing flag matters for single-cell data only. On spatial data
  \<^verbatim>\<open>data_handling\<close> returns the same outcome with the flag set and unset, and the one
  loader it calls is the spatial loader, which gets the data path alone. On other data
  the flag chooses the one loader that is called: the preprocessing loader when it is
  true, the plain loader otherwise.
\<close>

theorem preprocess_only_single_cell:
  assumes "(if truthy_type data_type then Inr data_type else check_data_type U data_path)
             = Inr resolved"
  shows "(py_eq resolved (DATA_TYPE_SPATIAL C) \<longrightarrow>
            snd (data_handling U C data_path dataset_name data_type (Given (Some True)))
              = snd (data_handling U C data_path dataset_name data_type (Given (Some False)))
            \<and> filter is_loader_call
                (fst (data_handling U C data_path dataset_name data_type preprocess_arg))
              = [Visium_loader data_path])
       \<and> (\<not> py_eq resolved (DATA_TYPE_SPATIAL C) \<longrightarrow>
            filter is_loader_call
              (fst (data_handling U C data_path dataset_name data_type preprocess_arg))
              = [if truthy_bool (bind_default (Some True) preprocess_arg)
                 then ScRNAseq_preprocess_loader dataset_name data_path
                 else ScRNAseq_loader data_path])"
  using data_handling_loaders [OF assms, of C dataset_name preprocess_arg]
    data_handling_spatial_outcome [OF assms, of C dataset_name "Given (Some True)"]
    data_handling_spatial_outcome [OF assms, of C dataset_name "Given (Some False)"]
  by simp

theorem preprocess_only_single_cell_witness:
  "snd (data_handling example_utils example_constants ''/data/visium'' ''ds1'' None
          (Given (Some True)))
     = snd (data_handling example_utils example_constants ''/data/visium'' ''ds1'' None
              (Given (Some False)))
   \<and> filter is_loader_call
       (fst (data_handling example_utils example_constants ''/data/visium'' ''ds1'' None
               (Given (Some False))))
     = [Visium_loader ''/data/visium'']
   \<and> filter is_loader_call
       (fst (data_handling example_utils example_constants ''/data/ds1'' ''ds1'' None
               (Given (Some False))))
     = [ScRNAseq_loader ''/data/ds1'']
   \<and> filter is_loader_call
       (fst (data_handling example_utils example_constants ''/data/ds1'' ''ds1'' None
               (Given (Some True))))
     = [ScRNAseq_preprocess_loader ''ds1'' ''/data/ds1'']"
proof -
  have h1: "(if truthy_type None then Inr None else check_data_type example_utils ''/data/visium'')
              = Inr (Some \<lparr>oid = 1, chars = ''spatial''\<rparr>)"
    by (simp add: truthy_type_def example_defs)
  have e1: "py_eq (Some \<lparr>oid = 1, chars = ''spatial''\<rparr>) (DATA_TYPE_SPATIAL example_constants)"
    by (simp add: py_eq_def example_defs)
  have h2: "(if truthy_type None then Inr None else check_data_type example_utils ''/data/ds1'')
              = Inr (Some \<lparr>oid = 2, chars = ''scRNAseq''\<rparr>)"
    by (simp add: truthy_type_def example_defs)
  have n2: "\<not> py_eq (Some \<lparr>oid = 2, chars = ''scRNAseq''\<rparr>) (DATA_TYPE_SPATIAL example_constants)"
    by (simp add: py_eq_def example_defs)
  have a: "snd (data_handling example_utils example_constants ''/data/visium'' ''ds1'' None
          (Given (Some True)))
     = snd (data_handling example_utils example_constants ''/data/visium'' ''ds1'' None
              (Given (Some False)))
   \<and> filter is_loader_call
       (fst (data_handling example_utils example_constants ''/data/visium'' ''ds1'' None
               (Given (Some False))))
     = [Visium_loader ''/data/visium'']"
    using preprocess_only_single_cell [OF h1, where C = example_constants
        and dataset_name = "''ds1''" and preprocess_arg = "Given (Some False)", THEN conjunct1]
      e1 by simp
  have b: "filter is_loader_call
       (fst (data_handling example_utils example_constants ''/data/ds1'' ''ds1'' None
               (Given (Some False))))
     = [ScRNAseq_loader ''/data/ds1'']"
    using preprocess_only_single_cell [OF h2, where C = example_constants
        and dataset_name = "''ds1''" and preprocess_arg = "Given (Some False)", THEN conjunct2]
      n2 by (simp add: truthy_bool_def)
  have c: "filter is_loader_call
       (fst (data_handling example_utils example_constants ''/data/ds1'' ''ds1'' None
               (Given (Some True))))
     = [ScRNAseq_preprocess_loader ''ds1'' ''/data/ds1'']"
    using preprocess_only_single_cell [OF h2, where C = example_constants
        and dataset_name = "''ds1''" and preprocess_arg = "Given (Some True)", THEN conjunct2]
      n2 by (simp add: truthy_bool_def)
  from a b c show ?thesis by simp
qed

subsection \<open>Defaults of the preprocessing flag\<close>

lemma computing_no_loader:
  "filter is_loader_call
     (fst (computing_mir_activity U C counts_norm rp miR_list cpus species_arg debug_arg)) = []"
  unfolding computing_mir_activity_def cpus_or_all_def Let_def
  by (auto simp: run_simps fst_bind_run snd_bind_run
      split: sum.splits option.splits prod.splits if_splits)

lemma post_spatial_no_loader:
  "filter is_loader_call
     (fst (mir_post_processing_spatial U C data_path counts_norm pvals miR_list rp
            dataset_name data_type figs_arg thresh_arg)) = []"
  unfolding mir_post_processing_spatial_def Let_def
  by (auto simp: run_simps fst_bind_run snd_bind_run detect_if_missing_run
      split: sum.splits option.splits prod.splits if_splits)

lemma post_sc_no_loader:
  "filter is_loader_call
     (fst (mir_post_processing_sc U C data_path counts pvals miR_list rp
            dataset_name data_type figs_arg pops_arg)) = []"
  unfolding mir_post_processing_sc_def Let_def
  by (auto simp: run_simps fst_bind_run snd_bind_run detect_if_missing_run
      split: sum.splits option.splits prod.splits if_splits)

lemma compute_loaders:
  assumes "check_data_type U data_path = Inr data_type"
  shows "filter is_loader_call
           (fst (compute U C data_path dataset_name miR_list cpus results_path species_arg
                   figs_arg pre_arg thresh_arg pops_arg debug_arg))
         = [if py_eq data_type (DATA_TYPE_SPATIAL C) then Visium_loader data_path
            else if truthy_bool (bind_default (Some True) pre_arg)
            then ScRNAseq_preprocess_loader dataset_name data_path
            else ScRNAseq_loader data_path]"
proof -
  have r: "(if truthy_type data_type then Inr data_type else check_data_type U data_path)
             = Inr data_type"
    using assms by simp
  show ?thesis
    unfolding compute_trace
    by (simp add: assms data_handling_loaders [OF r] computing_no_loader
        post_spatial_no_loader post_sc_no_loader split: sum.splits prod.splits)
qed

text \<open>
  C10. A call of \<^verbatim>\<open>data_handling\<close> or \<^verbatim>\<open>compute\<close> that omits \<^verbatim>\<open>preprocess\<close> runs as the call
  with \<^verbatim>\<open>preprocess=True\<close>, so single-cell data goes through the preprocessing loader;
  the command-line flag defaults to \<^verbatim>\<open>False\<close>, and \<^verbatim>\<open>main\<close> passes the flag's value on, so
  a command line that leaves the flag at its default loads single-cell data with the
  plain loader.
\<close>

theorem preprocess_defaults:
  "data_handling U C data_path dataset_name data_type Omitted
     = data_handling U C data_path dataset_name data_type (Given (Some True))
   \<and> compute U C data_path dataset_name miR_list cpus results_path species_arg figs_arg
       Omitted thresh_arg pops_arg debug_arg
     = compute U C data_path dataset_name miR_list cpus results_path species_arg figs_arg
         (Given (Some True)) thresh_arg pops_arg debug_arg
   \<and> flag_preprocess (flag_defaults C) = False
   \<and> (check_data_type U data_path = Inr detected
        \<and> \<not> py_eq detected (DATA_TYPE_SPATIAL C) \<longrightarrow>
      filter is_loader_call
        (fst (compute U C data_path dataset_name miR_list cpus results_path species_arg
                figs_arg Omitted thresh_arg pops_arg debug_arg))
        = [ScRNAseq_preprocess_loader dataset_name data_path]
      \<and> (flag_data_path F = Some data_path \<and> flag_dataset_name F = Some dataset_name
           \<and> flag_preprocess F = flag_preprocess (flag_defaults C) \<longrightarrow>
         filter is_loader_call (fst (main U C F)) = [ScRNAseq_loader data_path]))"
proof (intro conjI impI)
  show "data_handling U C data_path dataset_name data_type Omitted
     = data_handling U C data_path dataset_name data_type (Given (Some True))"
    by (simp add: data_handling_def)
  show "compute U C data_path dataset_name miR_list cpus results_path species_arg figs_arg
       Omitted thresh_arg pops_arg debug_arg
     = compute U C data_path dataset_name miR_list cpus results_path species_arg figs_arg
         (Given (Some True)) thresh_arg pops_arg debug_arg"
    by (simp add: compute_def)
  show "flag_preprocess (flag_defaults C) = False"
    by (simp add: flag_defaults_def)
next
  assume h: "check_data_type U data_path = Inr detected \<and> \<not> py_eq detected (DATA_TYPE_SPATIAL C)"
  then show "filter is_loader_call
        (fst (compute U C data_path dataset_name miR_list cpus results_path species_arg
                figs_arg Omitted thresh_arg pops_arg debug_arg))
        = [ScRNAseq_preprocess_loader dataset_name data_path]"
    by (simp add: compute_loaders [of U data_path detected] truthy_bool_def)
  assume f: "flag_data_path F = Some data_path \<and> flag_dataset_name F = Some dataset_name
           \<and> flag_preprocess F = flag_preprocess (flag_defaults C)"
  then have "main U C F =
      compute U C data_path dataset_name (flag_miR_list F) (flag_cpus F)
        (flag_results_path F) (Given (flag_species F)) (Given (flag_miR_figures F))
        (Given (Some False)) (Given (flag_thresh F))
        (Given (flag_populations F)) (Given (flag_debug F))"
    by (simp add: main_def flag_defaults_def)
  with h show "filter is_loader_call (fst (main U C F)) = [ScRNAseq_loader data_path]"
    by (simp add: compute_loaders [of U data_path detected] truthy_bool_def)
qed

theorem preprocess_defaults_witness:
  "filter is_loader_call
     (fst (compute example_utils example_constants ''/data/ds1'' ''ds1'' None None None
             Omitted Omitted Omitted Omitted Omitted Omitted))
     = [ScRNAseq_preprocess_loader ''ds1'' ''/data/ds1'']
   \<and> filter is_loader_call (fst (main example_utils example_constants example_flags))
     = [ScRNAseq_loader ''/data/ds1'']
   \<and> flag_preprocess example_flags = False"
proof -
  have h: "check_data_type example_utils ''/data/ds1'' = Inr (Some \<lparr>oid = 2, chars = ''scRNAseq''\<rparr>)
           \<and> \<not> py_eq (Some \<lparr>oid = 2, chars = ''scRNAseq''\<rparr>) (DATA_TYPE_SPATIAL example_constants)"
    by (simp add: py_eq_def example_defs)
  have f: "flag_data_path example_flags = Some ''/data/ds1''
           \<and> flag_dataset_name example_flags = Some ''ds1''
           \<and> flag_preprocess example_flags = flag_preprocess (flag_defaults example_constants)"
    by (simp add: example_flags_def)
  note t = preprocess_defaults [where U = example_utils and C = example_constants
      and data_path = "''/data/ds1''" and dataset_name = "''ds1''" and F = example_flags
      and detected = "Some \<lparr>oid = 2, chars = ''scRNAseq''\<rparr>",
      THEN conjunct2, THEN conjunct2, THEN conjunct2, rule_format, OF h]
  have a: "filter is_loader_call
     (fst (compute example_utils example_constants ''/data/ds1'' ''ds1'' None None None
             Omitted Omitted Omitted Omitted Omitted Omitted))
     = [ScRNAseq_preprocess_loader ''ds1'' ''/data/ds1'']"
    using t [THEN conjunct1] by simp
  have b: "filter is_loader_call (fst (main example_utils example_constants example_flags))
     = [ScRNAseq_loader ''/data/ds1'']"
    using t [THEN conjunct2, rule_format, OF f] by simp
  have c: "flag_preprocess example_flags = False"
    by (simp add: example_flags_def flag_defaults_def)
  from a b c show ?thesis by simp
qed

subsection \<open>Flag validation\<close>

text \<open>
  C8. A command line whose species, or whose \<^verbatim>\<open>miR_figures\<close> value, is outside the
  supported set is rejected by flag validation: the run ends with
  \<^verbatim>\<open>IllegalFlagValueError\<close> before any call is made, and the error carries, for each of
  the two flags that is wrong, the validator's message with the supported values
  joined by \<^verbatim>\<open>' or '\<close>.
\<close>

theorem unsupported_flag_rejected:
  assumes "flag_species F \<notin> set (SUPPORTED_SPECIES C)
           \<or> flag_miR_figures F \<notin> set (SUPPORTED_DRAW C)"
  shows "\<exists>failures.
           app_run U C F = ([], Inl (IllegalFlagValueError failures))
           \<and> (flag_species F \<notin> set (SUPPORTED_SPECIES C) \<longrightarrow>
                (''species'',
                 [''Either %s are supported.'', str_join '' or '' (SUPPORTED_SPECIES C)])
                  \<in> set failures)
           \<and> (flag_miR_figures F \<notin> set (SUPPORTED_DRAW C) \<longrightarrow>
                (''miR_figures'',
                 [''Either %s are supported.'', str_join '' or '' (SUPPORTED_DRAW C)])
                  \<in> set failures)"
proof -
  have s: "flag_species F \<notin> set (SUPPORTED_SPECIES C) \<Longrightarrow>
        (''species'', [''Either %s are supported.'', str_join '' or '' (SUPPORTED_SPECIES C)])
          \<in> set (failed_validators C F)"
    by (simp add: failed_validators_def validators_def)
  have d: "flag_miR_figures F \<notin> set (SUPPORTED_DRAW C) \<Longrightarrow>
        (''miR_figures'', [''Either %s are supported.'', str_join '' or '' (SUPPORTED_DRAW C)])
          \<in> set (failed_validators C F)"
    by (simp add: failed_validators_def validators_def)
  from assms s d have "failed_validators C F \<noteq> []" by auto
  then have "app_run U C F = ([], Inl (IllegalFlagValueError (failed_validators C F)))"
    by (simp add: app_run_def raise_def)
  with s d show ?thesis by blast
qed

text \<open>\<^verbatim>\<open>main\<close> is reached only with both required flags set, and a command line that passes
  validation is handed to it.\<close>

lemma validated_flags_have_required:
  assumes "failed_validators C F = []"
  shows "\<exists>data_path dataset_name.
           flag_data_path F = Some data_path \<and> flag_dataset_name F = Some dataset_name"
  using assms by (auto simp: failed_validators_def validators_def split: if_splits)

lemma valid_flags_run_main:
  "app_run example_utils example_constants example_flags
     = main example_utils example_constants example_flags"
  by (simp add: app_run_def failed_validators_def validators_def example_flags_def
      flag_defaults_def example_constants_def)

theorem unsupported_flag_rejected_witness:
  "app_run example_utils example_constants (example_flags\<lparr>flag_species := ''danio_rerio''\<rparr>)
     = ([], Inl (IllegalFlagValueError
               [(''species'', [''Either %s are supported.'', ''homo_sapiens or mus_musculus''])]))
   \<and> (\<exists>failures.
        app_run example_utils example_constants (example_flags\<lparr>flag_miR_figures := ''top_3''\<rparr>)
          = ([], Inl (IllegalFlagValueError failures))
        \<and> (''miR_figures'', [''Either %s are supported.'', ''top_10 or all'']) \<in> set failures)"
proof -
  have h: "flag_species (example_flags\<lparr>flag_species := ''danio_rerio''\<rparr>)
             \<notin> set (SUPPORTED_SPECIES example_constants)
           \<or> flag_miR_figures (example_flags\<lparr>flag_species := ''danio_rerio''\<rparr>)
             \<notin> set (SUPPORTED_DRAW example_constants)"
    by (simp add: example_constants_def)
  have g: "flag_species (example_flags\<lparr>flag_miR_figures := ''top_3''\<rparr>)
             \<notin> set (SUPPORTED_SPECIES example_constants)
           \<or> flag_miR_figures (example_flags\<lparr>flag_miR_figures := ''top_3''\<rparr>)
             \<notin> set (SUPPORTED_DRAW example_constants)"
    by (simp add: example_constants_def)
  have a: "app_run example_utils example_constants (example_flags\<lparr>flag_species := ''danio_rerio''\<rparr>)
     = ([], Inl (IllegalFlagValueError
               [(''species'', [''Either %s are supported.'', ''homo_sapiens or mus_musculus''])]))"
    by (simp add: app_run_def failed_validators_def validators_def example_flags_def
        flag_defaults_def example_constants_def raise_def)
  have b: "\<exists>failures.
        app_run example_utils example_constants (example_flags\<lparr>flag_miR_figures := ''top_3''\<rparr>)
          = ([], Inl (IllegalFlagValueError failures))
        \<and> (''miR_figures'', [''Either %s are supported.'', ''top_10 or all'']) \<in> set failures"
    using unsupported_flag_rejected [OF g, of example_utils]
    by (auto simp: example_constants_def)
  from a b show ?thesis by blast
qed

end
